theory Spec2Isabelle
  imports Complex_Main
begin

section \<open>Reinforcement coordination of the defender spawn point component\<close>

text \<open>
  The development embeds the class \<open>IPC_DefenderSpawnPointComponent\<close> (the four-wave,
  direct-spawn, frontline-aware variant). Engine objects the component only reads are
  inputs of a tick (record \<open>env\<close>); calls that change the engine (deleting or spawning an
  entity, scheduling the alert) are returned as an ordered list of effects. Timestamps are
  integers counting milliseconds; positions and durations are real numbers (the source uses
  32-bit floats, whose rounding is not modelled). Log output is not modelled.
\<close>

subsection \<open>Constants\<close>

definition DEBUG_MODE :: bool where
  "DEBUG_MODE = False"

definition DEBUG_WAVE_INTERVAL :: int where
  "DEBUG_WAVE_INTERVAL = 60"

definition INACTIVE_GRACE_PERIOD :: int where
  "INACTIVE_GRACE_PERIOD = 600"

definition FRONTLINE_RANGE :: real where
  "FRONTLINE_RANGE = 2000"

definition REINFORCEMENT_WAVE1_THRESHOLD :: int where
  "REINFORCEMENT_WAVE1_THRESHOLD = 300"

definition REINFORCEMENT_WAVE2_THRESHOLD :: int where
  "REINFORCEMENT_WAVE2_THRESHOLD = 600"

definition REINFORCEMENT_WAVE3_THRESHOLD :: int where
  "REINFORCEMENT_WAVE3_THRESHOLD = 900"

definition REINFORCEMENT_WAVE4_THRESHOLD :: int where
  "REINFORCEMENT_WAVE4_THRESHOLD = 1200"

definition COMBAT_DETECTION_RANGE :: real where
  "COMBAT_DETECTION_RANGE = 300"

definition REINFORCEMENT_GROUP_COUNT :: nat where
  "REINFORCEMENT_GROUP_COUNT = 1"

subsection \<open>Data\<close>

type_synonym timestamp = int
type_synonym entity = nat
type_synonym faction = nat
type_synonym base_ref = nat
type_synonym vec = "real \<times> real \<times> real"

text \<open>What the engine answers to one spawn request: whether the prefab resource loads and
  is valid, and the entity \<open>SpawnEntityPrefab\<close> returns (\<open>None\<close> for null).\<close>

record spawn_answer =
  prefab_valid :: bool
  spawned :: "entity option"

text \<open>The entity controlled by a player, as the component inspects it: the dead flag of its
  character controller (\<open>None\<close> when it has no controller), the faction of its character
  (\<open>None\<close> when it is not a character, \<open>Some None\<close> when the character has no faction) and
  its position.\<close>

record player_entity =
  pe_controller_dead :: "bool option"
  pe_character_faction :: "faction option option"
  pe_origin :: vec

text \<open>Everything a tick reads from the engine. \<open>world_time\<close> is \<open>None\<close> when the owner has
  no world. \<open>playerManager\<close> is \<open>None\<close> when there is no player manager, else one entry per
  player id (\<open>None\<close> when the player controls no entity). \<open>gameMode\<close> is \<open>None\<close> without a
  campaign game mode, \<open>Some None\<close> without a base manager, else the base manager's list of
  bases of a faction. \<open>factionManager\<close> gives the enemy faction of a campaign faction.
  The spawn point framework's own \<open>PrepareBase\<close> is not part of the component; what it
  leaves in \<open>m_nearBase\<close> and \<open>m_bBaseReady\<close> when called on this tick is given by
  \<open>framework_nearBase\<close> and \<open>framework_baseReady\<close>.\<close>

record env =
  world_time :: "timestamp option"
  playerManager :: "player_entity option list option"
  base_faction :: "base_ref \<Rightarrow> faction option"
  base_origin :: "base_ref \<Rightarrow> vec"
  gameMode :: "(faction \<Rightarrow> base_ref list) option option"
  factionManager :: "(faction \<Rightarrow> faction option) option"
  campaign_faction :: "faction \<Rightarrow> bool"
  engine :: "nat \<Rightarrow> spawn_answer"
  ent_null :: "entity \<Rightarrow> bool"
  ent_deleted :: "entity \<Rightarrow> bool"
  agents_count :: "entity \<Rightarrow> nat"
  framework_nearBase :: "base_ref option"
  framework_baseReady :: bool

record component =
  owner_id :: int
  m_sPrefab :: string
  m_Faction :: "faction option"
  m_nearBase :: "base_ref option"
  m_tCombatStartTime :: "timestamp option"
  m_bReinforcementActive :: bool
  m_iReinforcementWave :: int
  m_tLastReinforcementTime :: "timestamp option"
  m_bIsReinforcementCoordinator :: bool
  m_bCoordinatorInitialized :: bool
  m_aReinforcementGroups :: "entity list"
  m_aReinforcementHelicopters :: "entity list"
  m_tInactiveSince :: "timestamp option"

datatype effect =
    DeleteRplEntity entity
  | SpawnEntityPrefab entity
  | WaveTriggered int
  | BroadcastReinforcementAlert int
  | CallLaterCheckReinforcements
  | CallLaterInitializeReinforcementCoordinator

definition DiffMilliseconds :: "timestamp \<Rightarrow> timestamp \<Rightarrow> real" where
  "DiffMilliseconds a b = real_of_int (a - b)"

definition DistanceSq :: "vec \<Rightarrow> vec \<Rightarrow> real" where
  "DistanceSq p q =
     (case p of (px, py, pz) \<Rightarrow> case q of (qx, qy, qz) \<Rightarrow>
        (px - qx) * (px - qx) + (py - qy) * (py - qy) + (pz - qz) * (pz - qz))"

definition Distance :: "vec \<Rightarrow> vec \<Rightarrow> real" where
  "Distance p q = sqrt (DistanceSq p q)"

subsection \<open>Coordinator election\<close>

text \<open>A registered spawn point as the election reads it: the id of its owner entity,
  whether it casts to a defender spawn point, and its base.\<close>

record spawn_point =
  sp_id :: int
  sp_is_defender :: bool
  sp_nearBase :: "base_ref option"

fun lowestIdForBase :: "base_ref \<Rightarrow> spawn_point list \<Rightarrow> int \<Rightarrow> int" where
  "lowestIdForBase b [] low = low"
| "lowestIdForBase b (sp # sps) low =
     (if \<not> sp_is_defender sp then lowestIdForBase b sps low
      else if sp_nearBase sp \<noteq> Some b then lowestIdForBase b sps low
      else lowestIdForBase b sps (if sp_id sp < low then sp_id sp else low))"

text \<open>The first argument is the list \<open>GetPatrols\<close> of the autonomous capture system
  (\<open>None\<close> when there is no such system).\<close>

definition InitializeReinforcementCoordinator ::
    "spawn_point list option \<Rightarrow> component \<Rightarrow> component \<times> effect list" where
  "InitializeReinforcementCoordinator autonomousSystem c =
     (case m_nearBase c of
        None \<Rightarrow> (c, [])
      | Some b \<Rightarrow>
          (case autonomousSystem of
             None \<Rightarrow> (c, [])
           | Some allSpawnPoints \<Rightarrow>
               if allSpawnPoints = [] then (c, [])
               else
                 let myEntityId = owner_id c;
                     low = lowestIdForBase b allSpawnPoints myEntityId;
                     c' = c\<lparr>m_bIsReinforcementCoordinator := (myEntityId = low)\<rparr>
                 in if m_bIsReinforcementCoordinator c'
                    then (c', [CallLaterCheckReinforcements]) else (c', [])))"

subsection \<open>Wave thresholds and despawning\<close>

definition GetWaveThreshold :: "bool \<Rightarrow> int \<Rightarrow> int" where
  "GetWaveThreshold dbg waveNumber =
     (if dbg then waveNumber * DEBUG_WAVE_INTERVAL
      else if waveNumber = 1 then REINFORCEMENT_WAVE1_THRESHOLD
      else if waveNumber = 2 then REINFORCEMENT_WAVE2_THRESHOLD
      else if waveNumber = 3 then REINFORCEMENT_WAVE3_THRESHOLD
      else if waveNumber = 4 then REINFORCEMENT_WAVE4_THRESHOLD
      else 999999)"

fun despawn_each :: "env \<Rightarrow> entity list \<Rightarrow> effect list" where
  "despawn_each e [] = []"
| "despawn_each e (g # gs) =
     (if \<not> ent_null e g \<and> \<not> ent_deleted e g
      then DeleteRplEntity g # despawn_each e gs else despawn_each e gs)"

definition DespawnPreviousWaveGroups :: "component \<Rightarrow> env \<Rightarrow> component \<times> effect list" where
  "DespawnPreviousWaveGroups c e =
     (c\<lparr>m_aReinforcementGroups := [], m_aReinforcementHelicopters := []\<rparr>,
      despawn_each e (m_aReinforcementGroups c) @ despawn_each e (m_aReinforcementHelicopters c))"

subsection \<open>Combat detection\<close>

fun attacker_in_range :: "faction option \<Rightarrow> vec \<Rightarrow> player_entity option list \<Rightarrow> bool" where
  "attacker_in_range mf basePos [] = False"
| "attacker_in_range mf basePos (None # ps) = attacker_in_range mf basePos ps"
| "attacker_in_range mf basePos (Some player # ps) =
     (case pe_controller_dead player of
        None \<Rightarrow> attacker_in_range mf basePos ps
      | Some dead \<Rightarrow>
          if dead then attacker_in_range mf basePos ps
          else
            (case pe_character_faction player of
               None \<Rightarrow> attacker_in_range mf basePos ps
             | Some playerFaction \<Rightarrow>
                 if playerFaction = None \<or> playerFaction = mf
                 then attacker_in_range mf basePos ps
                 else if DistanceSq (pe_origin player) basePos
                           < COMBAT_DETECTION_RANGE * COMBAT_DETECTION_RANGE
                      then True
                      else attacker_in_range mf basePos ps))"

definition DetectCombatAtBase :: "component \<Rightarrow> env \<Rightarrow> bool" where
  "DetectCombatAtBase c e =
     (case m_nearBase c of
        None \<Rightarrow> False
      | Some b \<Rightarrow>
          (case base_faction e b of
             None \<Rightarrow> False
           | Some baseFaction \<Rightarrow>
               if Some baseFaction \<noteq> m_Faction c then False
               else
                 (case playerManager e of
                    None \<Rightarrow> False
                  | Some players \<Rightarrow>
                      attacker_in_range (m_Faction c) (base_origin e b) players)))"

subsection \<open>Spawning a wave\<close>

text \<open>\<open>SpawnReinforcementGroup\<close>: the \<open>k\<close>-th spawn request of the tick. The group type
  only selects a log text in the source and is left out; skill tuning and the defend
  waypoint do not change what the component tracks.\<close>

definition SpawnReinforcementGroup :: "component \<Rightarrow> env \<Rightarrow> nat \<Rightarrow> entity option" where
  "SpawnReinforcementGroup c e k =
     (if m_sPrefab c = [] then None
      else if m_Faction c = None then None
      else if m_nearBase c = None then None
      else if \<not> prefab_valid (engine e k) then None
      else spawned (engine e k))"

definition SpawnArmedHelicopter :: "component \<Rightarrow> env \<Rightarrow> nat \<Rightarrow> component \<times> entity option" where
  "SpawnArmedHelicopter c e k =
     (if m_nearBase c = None then (c, None)
      else if \<not> prefab_valid (engine e k) then (c, None)
      else
        (case spawned (engine e k) of
           None \<Rightarrow> (c, None)
         | Some helicopter \<Rightarrow>
             (c\<lparr>m_aReinforcementHelicopters := m_aReinforcementHelicopters c @ [helicopter]\<rparr>,
              Some helicopter)))"

text \<open>The loop \<open>for (i = 0; i < n; i++)\<close> around \<open>SpawnReinforcementGroup\<close>, with the
  request counter \<open>k\<close>; it returns the number of successful spawns as well.\<close>

fun spawn_groups :: "component \<Rightarrow> env \<Rightarrow> nat \<Rightarrow> nat \<Rightarrow> component \<times> effect list \<times> nat" where
  "spawn_groups c e k 0 = (c, [], 0)"
| "spawn_groups c e k (Suc n) =
     (case SpawnReinforcementGroup c e k of
        None \<Rightarrow> spawn_groups c e (Suc k) n
      | Some g \<Rightarrow>
          (case spawn_groups (c\<lparr>m_aReinforcementGroups := m_aReinforcementGroups c @ [g]\<rparr>)
                  e (Suc k) n of
             (c', fx, successfulSpawns) \<Rightarrow> (c', SpawnEntityPrefab g # fx, Suc successfulSpawns)))"

definition spawn_wave :: "component \<Rightarrow> env \<Rightarrow> int \<Rightarrow> component \<times> effect list" where
  "spawn_wave c e wave =
     (if wave = 4 then
        (case SpawnArmedHelicopter c e 0 of
           (c', None) \<Rightarrow> (c', [])
         | (c', Some helicopter) \<Rightarrow>
             (c', [SpawnEntityPrefab helicopter, BroadcastReinforcementAlert wave]))
      else
        (case spawn_groups c e 0 (if wave = 3 then 2 else REINFORCEMENT_GROUP_COUNT) of
           (c', fx, successfulSpawns) \<Rightarrow>
             (c', fx @ (if successfulSpawns > 0 then [BroadcastReinforcementAlert wave] else []))))"

definition TriggerReinforcements :: "bool \<Rightarrow> component \<Rightarrow> env \<Rightarrow> int \<Rightarrow> component \<times> effect list" where
  "TriggerReinforcements dbg c e wave =
     (case world_time e of
        None \<Rightarrow> (c, [])
      | Some now \<Rightarrow>
          (case (if dbg then DespawnPreviousWaveGroups c e else (c, [])) of
             (c1, fx1) \<Rightarrow>
               (case spawn_wave
                       (c1\<lparr>m_tLastReinforcementTime := Some now, m_iReinforcementWave := wave\<rparr>)
                       e wave of
                  (c2, fx2) \<Rightarrow> (c2, fx1 @ WaveTriggered wave # fx2))))"

subsection \<open>The escalation state machine\<close>

definition ResetReinforcementState :: "bool \<Rightarrow> component \<Rightarrow> env \<Rightarrow> component \<times> effect list" where
  "ResetReinforcementState dbg c e =
     (let c' = c\<lparr>m_bReinforcementActive := False, m_iReinforcementWave := 0\<rparr>
      in if dbg then DespawnPreviousWaveGroups c' e else (c', []))"

text \<open>The part of \<open>UpdateReinforcementState\<close> under \<open>if (m_bReinforcementActive)\<close>. A combat
  start time that was never set cannot be subtracted from; this happens in no reachable
  state (see \<open>exec_active_start\<close> below) and the model leaves the component as it is.\<close>

definition check_thresholds :: "bool \<Rightarrow> component \<Rightarrow> env \<Rightarrow> timestamp \<Rightarrow> component \<times> effect list" where
  "check_thresholds dbg c e currentTime =
     (case m_tCombatStartTime c of
        None \<Rightarrow> (c, [])
      | Some start \<Rightarrow>
          let combatDuration = DiffMilliseconds currentTime start / 1000 in
          if (case m_tLastReinforcementTime c of
                None \<Rightarrow> False
              | Some lastTime \<Rightarrow> DiffMilliseconds currentTime lastTime / 1000 < 10)
          then (c, [])
          else if m_iReinforcementWave c < 3 \<and> combatDuration \<ge> real_of_int (GetWaveThreshold dbg 3)
          then TriggerReinforcements dbg c e 3
          else if m_iReinforcementWave c < 2 \<and> combatDuration \<ge> real_of_int (GetWaveThreshold dbg 2)
          then TriggerReinforcements dbg c e 2
          else if m_iReinforcementWave c < 1 \<and> combatDuration \<ge> real_of_int (GetWaveThreshold dbg 1)
          then TriggerReinforcements dbg c e 1
          else (c, []))"

definition UpdateReinforcementState :: "bool \<Rightarrow> component \<Rightarrow> env \<Rightarrow> bool \<Rightarrow> component \<times> effect list" where
  "UpdateReinforcementState dbg c e combatActive =
     (case world_time e of
        None \<Rightarrow> (c, [])
      | Some currentTime \<Rightarrow>
          let c1 = (if combatActive \<and> \<not> m_bReinforcementActive c
                    then c\<lparr>m_tCombatStartTime := Some currentTime, m_bReinforcementActive := True\<rparr>
                    else c)
          in if \<not> combatActive \<and> m_bReinforcementActive c1
             then ResetReinforcementState dbg c1 e
             else if m_bReinforcementActive c1
             then check_thresholds dbg c1 e currentTime
             else (c1, []))"

text \<open>The engine's \<open>array.Remove(i)\<close>: the last element takes the place of the removed
  one, so the order of the array is not kept.\<close>

definition array_Remove :: "nat \<Rightarrow> 'a list \<Rightarrow> 'a list" where
  "array_Remove i xs =
     (if Suc i < length xs then (butlast xs)[i := last xs]
      else if Suc i = length xs then butlast xs
      else xs)"

text \<open>\<open>CleanupDeadReinforcementGroups\<close>: the index runs from the last element down to the
  first; \<open>cleanup_from e i gs\<close> has the elements below index \<open>i\<close> still to visit.\<close>

fun cleanup_from :: "env \<Rightarrow> nat \<Rightarrow> entity list \<Rightarrow> entity list" where
  "cleanup_from e 0 gs = gs"
| "cleanup_from e (Suc i) gs =
     (if i < length gs \<and> (ent_null e (gs ! i) \<or> agents_count e (gs ! i) = 0)
      then cleanup_from e i (array_Remove i gs)
      else cleanup_from e i gs)"

definition CleanupDeadReinforcementGroups :: "component \<Rightarrow> env \<Rightarrow> component" where
  "CleanupDeadReinforcementGroups c e =
     (if m_aReinforcementGroups c = [] then c
      else c\<lparr>m_aReinforcementGroups :=
               cleanup_from e (length (m_aReinforcementGroups c)) (m_aReinforcementGroups c)\<rparr>)"

definition CheckReinforcements :: "bool \<Rightarrow> component \<Rightarrow> env \<Rightarrow> component \<times> effect list" where
  "CheckReinforcements dbg c e =
     (if \<not> m_bIsReinforcementCoordinator c then (c, [])
      else if m_nearBase c = None then (c, [])
      else
        (case UpdateReinforcementState dbg c e (DetectCombatAtBase c e) of
           (c', fx) \<Rightarrow> (CleanupDeadReinforcementGroups c' e, fx)))"

subsection \<open>Lifecycle guard\<close>

fun player_on_faction :: "faction \<Rightarrow> player_entity option list \<Rightarrow> bool" where
  "player_on_faction baseFaction [] = False"
| "player_on_faction baseFaction (None # ps) = player_on_faction baseFaction ps"
| "player_on_faction baseFaction (Some player # ps) =
     (case pe_character_faction player of
        None \<Rightarrow> player_on_faction baseFaction ps
      | Some playerFaction \<Rightarrow>
          if playerFaction = Some baseFaction then True
          else player_on_faction baseFaction ps)"

definition IsBaseFriendly :: "env \<Rightarrow> base_ref \<Rightarrow> bool" where
  "IsBaseFriendly e b =
     (case base_faction e b of
        None \<Rightarrow> False
      | Some baseFaction \<Rightarrow>
          (case playerManager e of
             None \<Rightarrow> False
           | Some players \<Rightarrow> player_on_faction baseFaction players))"

fun enemy_base_near :: "env \<Rightarrow> vec \<Rightarrow> base_ref list \<Rightarrow> bool" where
  "enemy_base_near e ourPos [] = False"
| "enemy_base_near e ourPos (enemyBase # bs) =
     (if Distance ourPos (base_origin e enemyBase) < FRONTLINE_RANGE then True
      else enemy_base_near e ourPos bs)"

definition IsBaseOnFrontline :: "component \<Rightarrow> env \<Rightarrow> base_ref \<Rightarrow> bool" where
  "IsBaseOnFrontline c e b =
     (case gameMode e of
        None \<Rightarrow> True
      | Some None \<Rightarrow> True
      | Some (Some getBases) \<Rightarrow>
          (case factionManager e of
             None \<Rightarrow> True
           | Some getEnemyFaction \<Rightarrow>
               (case m_Faction c of
                  None \<Rightarrow> True
                | Some f \<Rightarrow>
                    if \<not> campaign_faction e f then True
                    else
                      (case getEnemyFaction f of
                         None \<Rightarrow> True
                       | Some enemyFaction \<Rightarrow>
                           enemy_base_near e (base_origin e b) (getBases enemyFaction)))))"

definition ShouldKeepDefendersActive :: "component \<Rightarrow> env \<Rightarrow> bool \<times> component" where
  "ShouldKeepDefendersActive c e =
     (case m_nearBase c of
        None \<Rightarrow> (False, c)
      | Some b \<Rightarrow>
          if \<not> IsBaseFriendly e b then (True, c)
          else if IsBaseOnFrontline c e b then (True, c\<lparr>m_tInactiveSince := None\<rparr>)
          else
            (case world_time e of
               None \<Rightarrow> (True, c)
             | Some currentTime \<Rightarrow>
                 (case m_tInactiveSince c of
                    None \<Rightarrow> (True, c\<lparr>m_tInactiveSince := Some currentTime\<rparr>)
                  | Some since \<Rightarrow>
                      if DiffMilliseconds currentTime since / 1000
                           \<ge> real_of_int INACTIVE_GRACE_PERIOD
                      then (False, c)
                      else (True, c))))"

text \<open>The override of \<open>PrepareBase\<close>: after the framework's method has run, the election is
  scheduled once, as soon as the base is known.\<close>

definition PrepareBase :: "component \<Rightarrow> env \<Rightarrow> component \<times> effect list" where
  "PrepareBase c e =
     (let c1 = c\<lparr>m_nearBase := framework_nearBase e\<rparr>
      in if m_nearBase c1 \<noteq> None \<and> \<not> m_bCoordinatorInitialized c1
         then (c1\<lparr>m_bCoordinatorInitialized := True\<rparr>, [CallLaterInitializeReinforcementCoordinator])
         else (c1, []))"

text \<open>\<open>UpdateTarget\<close>: the first component of the result is the value passed to
  \<open>SetIsNearTarget\<close> (\<open>None\<close> when the method returns before setting it). The call
  \<open>SetIsTargetChanged(false)\<close> writes a flag of the framework that the component never
  reads and is left out.\<close>

definition UpdateTarget :: "component \<Rightarrow> env \<Rightarrow> bool option \<times> component \<times> effect list" where
  "UpdateTarget c e =
     (case PrepareBase c e of
        (c1, fx) \<Rightarrow>
          if \<not> framework_baseReady e then (None, c1, fx)
          else
            (case m_nearBase c1 of
               None \<Rightarrow> (Some False, c1, fx)
             | Some b \<Rightarrow>
                 if \<not> IsBaseFriendly e b then (Some True, c1, fx)
                 else
                   (case ShouldKeepDefendersActive c1 e of
                      (shouldKeepActive, c2) \<Rightarrow> (Some shouldKeepActive, c2, fx))))"

subsection \<open>Executions\<close>

text \<open>A tick of the state machine is an environment together with the detector result fed
  to \<open>UpdateReinforcementState\<close>. \<open>exec\<close> is the component after a sequence of ticks,
  \<open>exec_fx\<close> the effects of all of them in order.\<close>

type_synonym tick = "env \<times> bool"

fun exec :: "bool \<Rightarrow> component \<Rightarrow> tick list \<Rightarrow> component" where
  "exec dbg c [] = c"
| "exec dbg c (t # ts) = exec dbg (fst (UpdateReinforcementState dbg c (fst t) (snd t))) ts"

fun exec_fx :: "bool \<Rightarrow> component \<Rightarrow> tick list \<Rightarrow> effect list" where
  "exec_fx dbg c [] = []"
| "exec_fx dbg c (t # ts) =
     snd (UpdateReinforcementState dbg c (fst t) (snd t))
       @ exec_fx dbg (fst (UpdateReinforcementState dbg c (fst t) (snd t))) ts"

fun fired :: "effect list \<Rightarrow> int list" where
  "fired [] = []"
| "fired (WaveTriggered w # fx) = w # fired fx"
| "fired (_ # fx) = fired fx"

text \<open>The waves the component configures: each has its threshold in \<open>GetWaveThreshold\<close> and
  its branch in \<open>TriggerReinforcements\<close>.\<close>

definition configured_waves :: "int list" where
  "configured_waves = [4, 3, 2, 1]"

text \<open>The waves \<open>UpdateReinforcementState\<close> tests, in its order. The test of wave 4 is
  commented out in the source ("disabled for testing").\<close>

definition evaluated_waves :: "int list" where
  "evaluated_waves = [3, 2, 1]"

text \<open>A component as constructed: nothing tracked, no timestamps.\<close>

definition new_component :: "int \<Rightarrow> string \<Rightarrow> faction option \<Rightarrow> base_ref option \<Rightarrow> component" where
  "new_component ident prefab f b =
     \<lparr>owner_id = ident, m_sPrefab = prefab, m_Faction = f, m_nearBase = b,
      m_tCombatStartTime = None, m_bReinforcementActive = False, m_iReinforcementWave = 0,
      m_tLastReinforcementTime = None, m_bIsReinforcementCoordinator = False,
      m_bCoordinatorInitialized = False, m_aReinforcementGroups = [],
      m_aReinforcementHelicopters = [], m_tInactiveSince = None\<rparr>"

text \<open>The lifecycle guard over a sequence of environments.\<close>

fun guard_exec :: "component \<Rightarrow> env list \<Rightarrow> component" where
  "guard_exec c [] = c"
| "guard_exec c (e # es) = guard_exec (snd (ShouldKeepDefendersActive c e)) es"

subsection \<open>Notions used in the statements\<close>

text \<open>The first conditional of \<open>UpdateReinforcementState\<close>: combat was detected, tracking
  starts unless it is already running.\<close>

definition engage :: "component \<Rightarrow> timestamp \<Rightarrow> component" where
  "engage c now =
     (if m_bReinforcementActive c then c
      else c\<lparr>m_tCombatStartTime := Some now, m_bReinforcementActive := True\<rparr>)"

text \<open>Wave \<open>w\<close> is applicable at time \<open>now\<close>: its number exceeds the current wave and its
  threshold is at most the elapsed combat time (in seconds).\<close>

definition applicable :: "bool \<Rightarrow> component \<Rightarrow> timestamp \<Rightarrow> int \<Rightarrow> bool" where
  "applicable dbg c now w =
     (case m_tCombatStartTime c of
        None \<Rightarrow> False
      | Some start \<Rightarrow>
          m_iReinforcementWave c < w \<and>
          real_of_int (GetWaveThreshold dbg w) \<le> DiffMilliseconds now start / 1000)"

text \<open>Fewer than 10 seconds have passed since the recorded time of the last wave.\<close>

definition in_cooldown :: "component \<Rightarrow> timestamp \<Rightarrow> bool" where
  "in_cooldown c now =
     (case m_tLastReinforcementTime c of
        None \<Rightarrow> False
      | Some lastTime \<Rightarrow> DiffMilliseconds now lastTime / 1000 < 10)"

text \<open>A concrete environment and component for the examples: the world clock reads
  \<open>now\<close>, every prefab loads, the \<open>k\<close>-th spawn request of the tick yields entity
  \<open>g + k\<close>, every entity is alive with four agents, nobody is connected, the framework
  has found base 1.\<close>

definition sample_env :: "timestamp \<Rightarrow> entity \<Rightarrow> env" where
  "sample_env now g =
     \<lparr>world_time = Some now, playerManager = Some [], base_faction = (\<lambda>_. Some 1),
      base_origin = (\<lambda>_. (0, 0, 0)), gameMode = None, factionManager = None,
      campaign_faction = (\<lambda>_. True),
      engine = (\<lambda>k. \<lparr>prefab_valid = True, spawned = Some (g + k)\<rparr>),
      ent_null = (\<lambda>_. False), ent_deleted = (\<lambda>_. False), agents_count = (\<lambda>_. 4),
      framework_nearBase = Some 1, framework_baseReady = True\<rparr>"

definition sample_component :: component where
  "sample_component = new_component 1 ''group'' (Some 1) (Some 1)"

text \<open>The entities deleted, and the entities spawned, by a list of effects, in order.\<close>

fun deleted_by :: "effect list \<Rightarrow> entity list" where
  "deleted_by [] = []"
| "deleted_by (DeleteRplEntity g # fx) = g # deleted_by fx"
| "deleted_by (_ # fx) = deleted_by fx"

fun spawned_by :: "effect list \<Rightarrow> entity list" where
  "spawned_by [] = []"
| "spawned_by (SpawnEntityPrefab g # fx) = g # spawned_by fx"
| "spawned_by (_ # fx) = spawned_by fx"

text \<open>An entity the despawn loop deletes: its reference is not null and it is not already
  deleted.\<close>

definition despawnable :: "env \<Rightarrow> entity \<Rightarrow> bool" where
  "despawnable e g = (\<not> ent_null e g \<and> \<not> ent_deleted e g)"

text \<open>The registered defender spawn points bound to base \<open>b\<close>.\<close>

definition members :: "base_ref \<Rightarrow> spawn_point list \<Rightarrow> spawn_point set" where
  "members b allSpawnPoints =
     {sp \<in> set allSpawnPoints. sp_is_defender sp \<and> sp_nearBase sp = Some b}"

text \<open>The coordinator flag of component \<open>c\<close> after it has run the election over the
  registry \<open>allSpawnPoints\<close>.\<close>

definition elected :: "spawn_point list \<Rightarrow> component \<Rightarrow> bool" where
  "elected allSpawnPoints c =
     m_bIsReinforcementCoordinator (fst (InitializeReinforcementCoordinator (Some allSpawnPoints) c))"

text \<open>A registry for the examples: three defender spawn points of base 1, a defender spawn
  point of base 4 and a spawn point of base 1 that is no defender.\<close>

definition sample_registry :: "spawn_point list" where
  "sample_registry =
     [\<lparr>sp_id = 5, sp_is_defender = True, sp_nearBase = Some 1\<rparr>,
      \<lparr>sp_id = 3, sp_is_defender = True, sp_nearBase = Some 1\<rparr>,
      \<lparr>sp_id = 9, sp_is_defender = True, sp_nearBase = Some 1\<rparr>,
      \<lparr>sp_id = 2, sp_is_defender = True, sp_nearBase = Some 4\<rparr>,
      \<lparr>sp_id = 1, sp_is_defender = False, sp_nearBase = Some 1\<rparr>]"

definition sample_self :: "spawn_point \<Rightarrow> component" where
  "sample_self x = new_component (sp_id x) ''group'' (Some 1) (sp_nearBase x)"

text \<open>A player's entity is a hostile actor that is alive and within distance \<open>r\<close> of
  \<open>pos\<close>: it exists, its controller is not dead, it is a character of a faction other than
  the defending faction \<open>mf\<close>, and it is less than \<open>r\<close> away.\<close>

definition hostile_alive_within :: "faction option \<Rightarrow> vec \<Rightarrow> real \<Rightarrow> player_entity option \<Rightarrow> bool" where
  "hostile_alive_within mf pos r p =
     (case p of
        None \<Rightarrow> False
      | Some player \<Rightarrow>
          pe_controller_dead player = Some False \<and>
          (case pe_character_faction player of
             Some (Some g) \<Rightarrow> Some g \<noteq> mf
           | _ \<Rightarrow> False) \<and>
          Distance (pe_origin player) pos < r)"

text \<open>An environment for the examples in which a living character of faction 2 stands
  223.6 units from base 1, which faction 1 holds.\<close>

definition attack_env :: env where
  "attack_env =
     (sample_env 0 7)\<lparr>playerManager :=
        Some [None,
              Some \<lparr>pe_controller_dead = Some False, pe_character_faction = Some (Some 2),
                    pe_origin = (100, 0, 200)\<rparr>]\<rparr>"

text \<open>An environment for the examples in which a player of faction 1 is connected, base 1
  is held by faction 1, and the enemy faction 2 holds the bases \<open>enemyBases\<close>; base 2 lies
  1000 units and base 3 lies 5000 units from base 1.\<close>

definition guard_env :: "timestamp \<Rightarrow> base_ref list \<Rightarrow> env" where
  "guard_env now enemyBases =
     (sample_env now 7)\<lparr>
        playerManager :=
          Some [Some \<lparr>pe_controller_dead = Some False, pe_character_faction = Some (Some 1),
                      pe_origin = (0, 0, 0)\<rparr>],
        base_origin := (\<lambda>b. if b = 2 then (1000, 0, 0) else if b = 3 then (0, 0, 5000) else (0, 0, 0)),
        gameMode := Some (Some (\<lambda>f. if f = 2 then enemyBases else [])),
        factionManager := Some (\<lambda>f. if f = 1 then Some 2 else Some 1)\<rparr>"

text \<open>The base is held by the faction of some connected player's character. The defending
  faction of the component plays no part in it.\<close>

definition player_faction_holds :: "env \<Rightarrow> base_ref \<Rightarrow> bool" where
  "player_faction_holds e b =
     (case base_faction e b of
        None \<Rightarrow> False
      | Some f \<Rightarrow>
          (case playerManager e of
             None \<Rightarrow> False
           | Some players \<Rightarrow>
               list_ex (\<lambda>p. case p of
                               None \<Rightarrow> False
                             | Some player \<Rightarrow> pe_character_faction player = Some (Some f))
                 players))"

text \<open>An environment for the examples like \<open>guard_env\<close>, except that base 1 is held by
  faction 3 and the connected player's character is of faction 3.\<close>

definition third_faction_env :: "timestamp \<Rightarrow> base_ref list \<Rightarrow> env" where
  "third_faction_env now enemyBases =
     (guard_env now enemyBases)\<lparr>
        playerManager :=
          Some [Some \<lparr>pe_controller_dead = Some False, pe_character_faction = Some (Some 3),
                      pe_origin = (0, 0, 0)\<rparr>],
        base_faction := (\<lambda>_. Some 3)\<rparr>"

section \<open>Auxiliary facts\<close>

lemma spawn_groups_frame:
  "spawn_groups c e k n = (c', fx, s) \<Longrightarrow>
     c' = c\<lparr>m_aReinforcementGroups := m_aReinforcementGroups c'\<rparr>"
proof (induction n arbitrary: c k c' fx s)
  case 0
  then show ?case by simp
next
  case (Suc n)
  show ?case
  proof (cases "SpawnReinforcementGroup c e k")
    case None
    with Suc show ?thesis by simp
  next
    case (Some g)
    obtain c2 fx2 s2 where r: "spawn_groups (c\<lparr>m_aReinforcementGroups := m_aReinforcementGroups c @ [g]\<rparr>) e (Suc k) n = (c2, fx2, s2)"
      by (metis prod_cases3)
    from Suc.IH[OF r] have "c2 = c\<lparr>m_aReinforcementGroups := m_aReinforcementGroups c2\<rparr>" by simp
    moreover from Suc.prems Some r have "c' = c2" by simp
    ultimately show ?thesis by simp
  qed
qed

lemma spawn_groups_fired: "spawn_groups c e k n = (c', fx, s) \<Longrightarrow> fired fx = []"
proof (induction n arbitrary: c k c' fx s)
  case 0
  then show ?case by simp
next
  case (Suc n)
  then show ?case
    by (cases "SpawnReinforcementGroup c e k") (auto split: prod.splits)
qed

lemma fired_append: "fired (xs @ ys) = fired xs @ fired ys"
  by (induction xs rule: fired.induct) auto

lemma spawn_wave_frame:
  "spawn_wave c e w = (c', fx) \<Longrightarrow>
     c' = c\<lparr>m_aReinforcementGroups := m_aReinforcementGroups c',
            m_aReinforcementHelicopters := m_aReinforcementHelicopters c'\<rparr>"
  by (auto simp: spawn_wave_def SpawnArmedHelicopter_def
           split: if_splits prod.splits option.splits dest!: spawn_groups_frame)

lemma spawn_wave_fired: "spawn_wave c e w = (c', fx) \<Longrightarrow> fired fx = []"
  by (auto simp: spawn_wave_def fired_append split: if_splits prod.splits option.splits dest: spawn_groups_fired)

lemma despawn_each_fired: "fired (despawn_each e gs) = []"
  by (induction gs) auto

lemma Trigger_fields:
  assumes "world_time e = Some now"
  shows "m_iReinforcementWave (fst (TriggerReinforcements dbg c e w)) = w"
    and "m_tLastReinforcementTime (fst (TriggerReinforcements dbg c e w)) = Some now"
    and "m_bReinforcementActive (fst (TriggerReinforcements dbg c e w)) = m_bReinforcementActive c"
    and "m_tCombatStartTime (fst (TriggerReinforcements dbg c e w)) = m_tCombatStartTime c"
    and "fired (snd (TriggerReinforcements dbg c e w)) = [w]"
proof -
  obtain c1 fx1 where d: "(if dbg then DespawnPreviousWaveGroups c e else (c, [])) = (c1, fx1)"
    by (cases "(if dbg then DespawnPreviousWaveGroups c e else (c, []))") auto
  obtain c2 fx2 where s: "spawn_wave (c1\<lparr>m_tLastReinforcementTime := Some now, m_iReinforcementWave := w\<rparr>) e w = (c2, fx2)"
    by (cases "spawn_wave (c1\<lparr>m_tLastReinforcementTime := Some now, m_iReinforcementWave := w\<rparr>) e w") auto
  have t: "TriggerReinforcements dbg c e w = (c2, fx1 @ WaveTriggered w # fx2)"
    using assms d s by (simp add: TriggerReinforcements_def)
  have c1: "m_bReinforcementActive c1 = m_bReinforcementActive c" "m_tCombatStartTime c1 = m_tCombatStartTime c"
    using d by (auto simp: DespawnPreviousWaveGroups_def split: if_splits)
  have f1: "fired fx1 = []"
    using d by (auto simp: DespawnPreviousWaveGroups_def fired_append despawn_each_fired split: if_splits)
  note fr = spawn_wave_frame[OF s]
  have c2: "m_iReinforcementWave c2 = w" "m_tLastReinforcementTime c2 = Some now"
     "m_bReinforcementActive c2 = m_bReinforcementActive c1" "m_tCombatStartTime c2 = m_tCombatStartTime c1"
    by (subst fr, simp)+
  show "m_iReinforcementWave (fst (TriggerReinforcements dbg c e w)) = w"
    and "m_tLastReinforcementTime (fst (TriggerReinforcements dbg c e w)) = Some now"
    and "m_bReinforcementActive (fst (TriggerReinforcements dbg c e w)) = m_bReinforcementActive c"
    and "m_tCombatStartTime (fst (TriggerReinforcements dbg c e w)) = m_tCombatStartTime c"
    and "fired (snd (TriggerReinforcements dbg c e w)) = [w]"
    using t c1 c2 f1 spawn_wave_fired[OF s] by (simp_all add: fired_append)
qed

lemma Reset_fields:
  "m_iReinforcementWave (fst (ResetReinforcementState dbg c e)) = 0"
  "m_bReinforcementActive (fst (ResetReinforcementState dbg c e)) = False"
  "m_tLastReinforcementTime (fst (ResetReinforcementState dbg c e)) = m_tLastReinforcementTime c"
  "m_tCombatStartTime (fst (ResetReinforcementState dbg c e)) = m_tCombatStartTime c"
  "fired (snd (ResetReinforcementState dbg c e)) = []"
  by (simp_all add: ResetReinforcementState_def DespawnPreviousWaveGroups_def Let_def fired_append despawn_each_fired)

lemma check_thresholds_quiet:
  assumes "in_cooldown c now \<or> (\<forall>w \<in> set evaluated_waves. \<not> applicable dbg c now w)"
  shows "check_thresholds dbg c e now = (c, [])"
  using assms
  by (auto simp: check_thresholds_def in_cooldown_def applicable_def evaluated_waves_def Let_def split: option.splits)

lemma check_thresholds_fire:
  assumes "\<not> in_cooldown c now" "w \<in> set evaluated_waves" "applicable dbg c now w"
    "\<forall>v \<in> set evaluated_waves. applicable dbg c now v \<longrightarrow> v \<le> w"
  shows "check_thresholds dbg c e now = TriggerReinforcements dbg c e w"
  using assms
  by (auto simp: check_thresholds_def in_cooldown_def applicable_def evaluated_waves_def Let_def split: option.splits)

lemma check_thresholds_cases:
  "check_thresholds dbg c e now = (c, [])
   \<or> (\<exists>w \<in> set evaluated_waves. \<not> in_cooldown c now \<and> applicable dbg c now w \<and>
         (\<forall>v \<in> set evaluated_waves. applicable dbg c now v \<longrightarrow> v \<le> w) \<and>
         check_thresholds dbg c e now = TriggerReinforcements dbg c e w)"
proof (cases "in_cooldown c now \<or> (\<forall>w \<in> set evaluated_waves. \<not> applicable dbg c now w)")
  case True
  then show ?thesis using check_thresholds_quiet by blast
next
  case False
  then have nc: "\<not> in_cooldown c now" and ex: "\<exists>w \<in> set evaluated_waves. applicable dbg c now w"
    by auto
  define w where "w = Max {v \<in> set evaluated_waves. applicable dbg c now v}"
  have fin: "finite {v \<in> set evaluated_waves. applicable dbg c now v}" by simp
  have ne: "{v \<in> set evaluated_waves. applicable dbg c now v} \<noteq> {}" using ex by auto
  have "w \<in> {v \<in> set evaluated_waves. applicable dbg c now v}"
    unfolding w_def using Max_in[OF fin ne] .
  moreover have "\<forall>v \<in> set evaluated_waves. applicable dbg c now v \<longrightarrow> v \<le> w"
    unfolding w_def using Max_ge[OF fin] by auto
  ultimately show ?thesis
    using nc check_thresholds_fire[of c now w dbg e] by blast
qed

lemma Update_unfold:
  "UpdateReinforcementState dbg c e a =
     (case world_time e of None \<Rightarrow> (c, [])
      | Some now \<Rightarrow>
          if a then check_thresholds dbg (engage c now) e now
          else if m_bReinforcementActive c then ResetReinforcementState dbg c e
          else (c, []))"
  by (auto simp: UpdateReinforcementState_def engage_def Let_def split: option.splits)

lemma engage_fields:
  "m_bReinforcementActive (engage c now)"
  "m_iReinforcementWave (engage c now) = m_iReinforcementWave c"
  "m_tLastReinforcementTime (engage c now) = m_tLastReinforcementTime c"
  "m_bReinforcementActive c \<Longrightarrow> engage c now = c"
  "m_tCombatStartTime (engage c now) \<noteq> None \<or> m_bReinforcementActive c"
  by (auto simp: engage_def)

lemma in_cooldown_engage: "in_cooldown (engage c now) t = in_cooldown c t"
  by (simp add: in_cooldown_def engage_fields)

lemma applicable_wave: "applicable dbg c now w \<Longrightarrow> m_iReinforcementWave c < w"
  by (auto simp: applicable_def split: option.splits)

lemma not_cooldown_ge:
  "\<not> in_cooldown c now \<Longrightarrow> m_tLastReinforcementTime c = Some t \<Longrightarrow> t + 10000 \<le> now"
  by (auto simp: in_cooldown_def DiffMilliseconds_def)

lemma step_wave_monotone:
  assumes "m_bReinforcementActive c" "m_bReinforcementActive (fst (UpdateReinforcementState dbg c e a))"
  shows "m_iReinforcementWave c \<le> m_iReinforcementWave (fst (UpdateReinforcementState dbg c e a))"
proof (cases "world_time e")
  case None
  then show ?thesis by (simp add: Update_unfold)
next
  case (Some now)
  show ?thesis
  proof (cases a)
    case False
    with Some assms show ?thesis by (simp add: Update_unfold Reset_fields)
  next
    case True
    have u: "UpdateReinforcementState dbg c e a = check_thresholds dbg c e now"
      using Some True assms(1) by (simp add: Update_unfold engage_fields)
    from check_thresholds_cases[of dbg c e now] show ?thesis
    proof (elim disjE conjE bexE)
      assume "check_thresholds dbg c e now = (c, [])"
      with u show ?thesis by simp
    next
      fix w assume "applicable dbg c now w" "check_thresholds dbg c e now = TriggerReinforcements dbg c e w"
      with u applicable_wave[of dbg c now w] show ?thesis
        by (simp add: Trigger_fields(1)[OF Some])
    qed
  qed
qed

lemma step_reset_zero:
  assumes "m_bReinforcementActive c" "\<not> m_bReinforcementActive (fst (UpdateReinforcementState dbg c e a))"
  shows "m_iReinforcementWave (fst (UpdateReinforcementState dbg c e a)) = 0"
proof (cases "world_time e")
  case None
  with assms show ?thesis by (simp add: Update_unfold)
next
  case (Some now)
  show ?thesis
  proof (cases a)
    case False
    with Some assms show ?thesis by (simp add: Update_unfold Reset_fields)
  next
    case True
    have u: "UpdateReinforcementState dbg c e a = check_thresholds dbg c e now"
      using Some True assms(1) by (simp add: Update_unfold engage_fields)
    from check_thresholds_cases[of dbg c e now] assms u show ?thesis
      by (auto simp: Trigger_fields(3)[OF Some])
  qed
qed

lemma step_fired_cases:
  "fired (snd (UpdateReinforcementState dbg c e a)) = [] \<and>
     m_tLastReinforcementTime (fst (UpdateReinforcementState dbg c e a)) = m_tLastReinforcementTime c
   \<or> (\<exists>w now. fired (snd (UpdateReinforcementState dbg c e a)) = [w] \<and> a \<and>
         world_time e = Some now \<and> w \<in> set evaluated_waves \<and>
         \<not> in_cooldown c now \<and> applicable dbg (engage c now) now w \<and>
         (\<forall>v \<in> set evaluated_waves. applicable dbg (engage c now) now v \<longrightarrow> v \<le> w) \<and>
         UpdateReinforcementState dbg c e a = TriggerReinforcements dbg (engage c now) e w)"
proof (cases "world_time e")
  case None
  then show ?thesis by (simp add: Update_unfold)
next
  case (Some now)
  show ?thesis
  proof (cases a)
    case False
    with Some show ?thesis by (simp add: Update_unfold Reset_fields)
  next
    case True
    have u: "UpdateReinforcementState dbg c e a = check_thresholds dbg (engage c now) e now"
      using Some True by (simp add: Update_unfold)
    from check_thresholds_cases[of dbg "engage c now" e now] show ?thesis
    proof (elim disjE conjE bexE)
      assume "check_thresholds dbg (engage c now) e now = (engage c now, [])"
      with u show ?thesis by (simp add: engage_fields)
    next
      fix w assume "w \<in> set evaluated_waves" "\<not> in_cooldown (engage c now) now"
        "applicable dbg (engage c now) now w"
        "\<forall>v \<in> set evaluated_waves. applicable dbg (engage c now) now v \<longrightarrow> v \<le> w"
        "check_thresholds dbg (engage c now) e now = TriggerReinforcements dbg (engage c now) e w"
      with u Some True show ?thesis
        by (simp add: Trigger_fields(5)[OF Some] in_cooldown_engage)
    qed
  qed
qed

lemma step_fire_time:
  assumes "fired (snd (UpdateReinforcementState dbg c e a)) \<noteq> []"
  shows "\<exists>now. world_time e = Some now \<and> \<not> in_cooldown c now \<and>
           m_tLastReinforcementTime (fst (UpdateReinforcementState dbg c e a)) = Some now"
  using step_fired_cases[of dbg c e a] assms
  by (auto simp: Trigger_fields(2))

lemma step_last_lower:
  assumes "m_tLastReinforcementTime c = Some t" "L \<le> t"
  shows "\<exists>t'. m_tLastReinforcementTime (fst (UpdateReinforcementState dbg c e a)) = Some t' \<and> L \<le> t'"
proof (cases "fired (snd (UpdateReinforcementState dbg c e a)) = []")
  case True
  with step_fired_cases[of dbg c e a] assms show ?thesis by auto
next
  case False
  from step_fire_time[OF False] obtain now where
    n: "world_time e = Some now" "\<not> in_cooldown c now"
       "m_tLastReinforcementTime (fst (UpdateReinforcementState dbg c e a)) = Some now"
    by blast
  from not_cooldown_ge[OF n(2) assms(1)] assms(2) n(3) show ?thesis by simp
qed

lemma exec_last_lower:
  "m_tLastReinforcementTime c = Some t \<Longrightarrow> L \<le> t \<Longrightarrow>
     \<exists>t'. m_tLastReinforcementTime (exec dbg c ts) = Some t' \<and> L \<le> t'"
proof (induction ts arbitrary: c t)
  case Nil
  then show ?case by simp
next
  case (Cons x ts)
  from step_last_lower[OF Cons.prems, of dbg "fst x" "snd x"] obtain t' where
    "m_tLastReinforcementTime (fst (UpdateReinforcementState dbg c (fst x) (snd x))) = Some t'" "L \<le> t'"
    by blast
  from Cons.IH[OF this] show ?case by simp
qed

lemma exec_append: "exec dbg c (xs @ ys) = exec dbg (exec dbg c xs) ys"
  by (induction xs arbitrary: c) auto

lemma cooldown_spans:
  assumes f1: "fired (snd (UpdateReinforcementState dbg (exec dbg c0 ts1) (fst t1) (snd t1))) \<noteq> []"
    and f2: "fired (snd (UpdateReinforcementState dbg (exec dbg c0 (ts1 @ t1 # ts2)) (fst t2) (snd t2))) \<noteq> []"
    and u1: "world_time (fst t1) = Some u1" and u2: "world_time (fst t2) = Some u2"
  shows "u1 + 10000 \<le> u2"
proof -
  let ?c1 = "fst (UpdateReinforcementState dbg (exec dbg c0 ts1) (fst t1) (snd t1))"
  from step_fire_time[OF f1] u1 have l1: "m_tLastReinforcementTime ?c1 = Some u1" by auto
  have e: "exec dbg c0 (ts1 @ t1 # ts2) = exec dbg ?c1 ts2" by (simp add: exec_append)
  from exec_last_lower[OF l1 order_refl, of dbg ts2] e obtain t' where
    t': "m_tLastReinforcementTime (exec dbg c0 (ts1 @ t1 # ts2)) = Some t'" "u1 \<le> t'" by auto
  from step_fire_time[OF f2] u2 have "\<not> in_cooldown (exec dbg c0 (ts1 @ t1 # ts2)) u2" by auto
  from not_cooldown_ge[OF this t'(1)] t'(2) show ?thesis by simp
qed

lemma step_active_start:
  assumes "m_bReinforcementActive c \<longrightarrow> m_tCombatStartTime c \<noteq> None"
  shows "m_bReinforcementActive (fst (UpdateReinforcementState dbg c e a)) \<longrightarrow>
         m_tCombatStartTime (fst (UpdateReinforcementState dbg c e a)) \<noteq> None"
proof (cases "fired (snd (UpdateReinforcementState dbg c e a)) = []")
  case False
  with step_fired_cases[of dbg c e a] obtain w now where
    "world_time e = Some now" "UpdateReinforcementState dbg c e a = TriggerReinforcements dbg (engage c now) e w"
    by auto
  then show ?thesis using assms engage_fields(5)[of c now]
    by (auto simp: Trigger_fields(3,4) engage_fields)
next
  case True
  show ?thesis
  proof (cases "world_time e")
    case None
    with assms show ?thesis by (simp add: Update_unfold)
  next
    case (Some now)
    show ?thesis
    proof (cases a)
      case False
      with Some assms show ?thesis by (simp add: Update_unfold Reset_fields)
    next
      case True
      from check_thresholds_cases[of dbg "engage c now" e now] Some True assms
        engage_fields(5)[of c now]
      show ?thesis
        by (auto simp: Update_unfold Trigger_fields(3,4) engage_fields)
    qed
  qed
qed

lemmas eval_defs = sample_env_def sample_component_def new_component_def DEBUG_MODE_def
  UpdateReinforcementState_def check_thresholds_def TriggerReinforcements_def spawn_wave_def
  SpawnReinforcementGroup_def SpawnArmedHelicopter_def ResetReinforcementState_def
  DespawnPreviousWaveGroups_def GetWaveThreshold_def DiffMilliseconds_def
  REINFORCEMENT_GROUP_COUNT_def REINFORCEMENT_WAVE1_THRESHOLD_def REINFORCEMENT_WAVE2_THRESHOLD_def
  REINFORCEMENT_WAVE3_THRESHOLD_def REINFORCEMENT_WAVE4_THRESHOLD_def DEBUG_WAVE_INTERVAL_def Let_def

text \<open>Sample executions on the shipped configuration.\<close>

lemma run1: "exec DEBUG_MODE sample_component [(sample_env 0 7, True), (sample_env 301000 7, True)] =
   sample_component\<lparr>m_tCombatStartTime := Some 0, m_bReinforcementActive := True,
       m_iReinforcementWave := 1, m_tLastReinforcementTime := Some 301000, m_aReinforcementGroups := [7]\<rparr>"
  by (simp add: eval_defs)

lemma run2: "exec DEBUG_MODE sample_component
     [(sample_env 0 7, True), (sample_env 301000 7, True), (sample_env 601000 8, True)] =
   sample_component\<lparr>m_tCombatStartTime := Some 0, m_bReinforcementActive := True,
       m_iReinforcementWave := 2, m_tLastReinforcementTime := Some 601000, m_aReinforcementGroups := [7, 8]\<rparr>"
  by (simp add: eval_defs)

lemma run2_fx: "exec_fx DEBUG_MODE sample_component
     [(sample_env 0 7, True), (sample_env 301000 7, True), (sample_env 601000 8, True)] =
   [WaveTriggered 1, SpawnEntityPrefab 7, BroadcastReinforcementAlert 1,
    WaveTriggered 2, SpawnEntityPrefab 8, BroadcastReinforcementAlert 2]"
  by (simp add: eval_defs)

lemma exec_active_start:
  "(m_bReinforcementActive c \<longrightarrow> m_tCombatStartTime c \<noteq> None) \<Longrightarrow>
   m_bReinforcementActive (exec dbg c ts) \<longrightarrow> m_tCombatStartTime (exec dbg c ts) \<noteq> None"
proof (induction ts arbitrary: c)
  case Nil
  then show ?case by simp
next
  case (Cons t ts)
  from Cons.IH[OF step_active_start[OF Cons.prems]] show ?case by simp
qed

lemma step_fired_short: "length (fired (snd (UpdateReinforcementState dbg c e a))) \<le> 1"
  using step_fired_cases[of dbg c e a] by auto

lemma step_fired_above:
  assumes "w \<in> set (fired (snd (UpdateReinforcementState dbg c e a)))"
  shows "m_iReinforcementWave c < w"
proof -
  from step_fired_cases[of dbg c e a] assms obtain now where
    "applicable dbg (engage c now) now w" by auto
  from applicable_wave[OF this] show ?thesis by (simp add: engage_fields)
qed

lemma check_thresholds_max:
  assumes nc: "\<not> in_cooldown c now" and ex: "\<exists>w \<in> set evaluated_waves. applicable dbg c now w"
  shows "\<exists>w \<in> set evaluated_waves. applicable dbg c now w \<and>
         (\<forall>v \<in> set evaluated_waves. applicable dbg c now v \<longrightarrow> v \<le> w) \<and>
         check_thresholds dbg c e now = TriggerReinforcements dbg c e w"
proof -
  define w where "w = Max {v \<in> set evaluated_waves. applicable dbg c now v}"
  have fin: "finite {v \<in> set evaluated_waves. applicable dbg c now v}" by simp
  have ne: "{v \<in> set evaluated_waves. applicable dbg c now v} \<noteq> {}" using ex by auto
  have "w \<in> {v \<in> set evaluated_waves. applicable dbg c now v}"
    unfolding w_def using Max_in[OF fin ne] .
  moreover have "\<forall>v \<in> set evaluated_waves. applicable dbg c now v \<longrightarrow> v \<le> w"
    unfolding w_def using Max_ge[OF fin] by auto
  ultimately show ?thesis
    using nc check_thresholds_fire[of c now w dbg e] by blast
qed

lemma step_stays_active:
  assumes "m_bReinforcementActive c" "a \<or> world_time e = None"
  shows "m_bReinforcementActive (fst (UpdateReinforcementState dbg c e a))"
proof (cases "world_time e")
  case None
  with assms show ?thesis by (simp add: Update_unfold)
next
  case (Some now)
  with assms have a by simp
  with Some assms(1) check_thresholds_cases[of dbg c e now] show ?thesis
    by (auto simp: Update_unfold engage_fields Trigger_fields(3))
qed

lemma engagement_fired_above:
  "m_bReinforcementActive c \<Longrightarrow> \<forall>t \<in> set ts. snd t \<or> world_time (fst t) = None \<Longrightarrow>
   w \<in> set (fired (exec_fx dbg c ts)) \<Longrightarrow> m_iReinforcementWave c < w"
proof (induction ts arbitrary: c)
  case Nil
  then show ?case by simp
next
  case (Cons t ts)
  let ?c' = "fst (UpdateReinforcementState dbg c (fst t) (snd t))"
  from Cons.prems(2) have t: "snd t \<or> world_time (fst t) = None" by simp
  have act: "m_bReinforcementActive ?c'" using step_stays_active[OF Cons.prems(1) t] .
  have mono: "m_iReinforcementWave c \<le> m_iReinforcementWave ?c'"
    using step_wave_monotone[OF Cons.prems(1) act] .
  from Cons.prems(3) have "w \<in> set (fired (snd (UpdateReinforcementState dbg c (fst t) (snd t))))
     \<or> w \<in> set (fired (exec_fx dbg ?c' ts))"
    by (simp add: fired_append)
  then show ?case
  proof
    assume "w \<in> set (fired (snd (UpdateReinforcementState dbg c (fst t) (snd t))))"
    then show ?thesis by (rule step_fired_above)
  next
    assume "w \<in> set (fired (exec_fx dbg ?c' ts))"
    from Cons.IH[OF act _ this] Cons.prems(2) mono show ?thesis by simp
  qed
qed

lemma engaged_tick_fires_highest:
  assumes "m_bReinforcementActive c" "a" "world_time e = Some now" "\<not> in_cooldown c now"
  shows "w \<in> set (fired (snd (UpdateReinforcementState dbg c e a))) \<longleftrightarrow>
         w \<in> set evaluated_waves \<and> applicable dbg c now w \<and>
         (\<forall>v \<in> set evaluated_waves. applicable dbg c now v \<longrightarrow> v \<le> w)"
proof -
  have u: "UpdateReinforcementState dbg c e a = check_thresholds dbg c e now"
    using assms by (simp add: Update_unfold engage_fields)
  show ?thesis
  proof (cases "\<exists>v \<in> set evaluated_waves. applicable dbg c now v")
    case False
    then have "check_thresholds dbg c e now = (c, [])"
      using check_thresholds_quiet[of c now dbg e] by blast
    with u False show ?thesis by auto
  next
    case True
    from check_thresholds_max[OF assms(4) True, of e]
    obtain m where m: "m \<in> set evaluated_waves" "applicable dbg c now m"
      "\<forall>v \<in> set evaluated_waves. applicable dbg c now v \<longrightarrow> v \<le> m"
      "check_thresholds dbg c e now = TriggerReinforcements dbg c e m"
      by blast
    have f: "fired (snd (UpdateReinforcementState dbg c e a)) = [m]"
      using u m(4) Trigger_fields(5)[OF assms(3)] by simp
    show ?thesis
    proof
      assume "w \<in> set (fired (snd (UpdateReinforcementState dbg c e a)))"
      with f m show "w \<in> set evaluated_waves \<and> applicable dbg c now w \<and>
         (\<forall>v \<in> set evaluated_waves. applicable dbg c now v \<longrightarrow> v \<le> w)" by simp
    next
      assume r: "w \<in> set evaluated_waves \<and> applicable dbg c now w \<and>
         (\<forall>v \<in> set evaluated_waves. applicable dbg c now v \<longrightarrow> v \<le> w)"
      with m have "w \<le> m" "m \<le> w" by auto
      with f show "w \<in> set (fired (snd (UpdateReinforcementState dbg c e a)))" by simp
    qed
  qed
qed

lemma run625: "exec DEBUG_MODE sample_component [(sample_env 0 7, True), (sample_env 625000 7, True)] =
   sample_component\<lparr>m_tCombatStartTime := Some 0, m_bReinforcementActive := True,
       m_iReinforcementWave := 2, m_tLastReinforcementTime := Some 625000, m_aReinforcementGroups := [7]\<rparr>"
  by (simp add: eval_defs)

lemma deleted_by_append: "deleted_by (xs @ ys) = deleted_by xs @ deleted_by ys"
  by (induction xs rule: deleted_by.induct) auto

lemma spawned_by_append: "spawned_by (xs @ ys) = spawned_by xs @ spawned_by ys"
  by (induction xs rule: spawned_by.induct) auto

lemma despawn_each_map: "despawn_each e gs = map DeleteRplEntity (filter (despawnable e) gs)"
  by (induction gs) (auto simp: despawnable_def)

lemma spawn_groups_tracks:
  "spawn_groups c e k n = (c', fx, s) \<Longrightarrow>
     m_aReinforcementGroups c' = m_aReinforcementGroups c @ spawned_by fx \<and> deleted_by fx = [] \<and>
     m_aReinforcementHelicopters c' = m_aReinforcementHelicopters c"
proof (induction n arbitrary: c k c' fx s)
  case 0
  then show ?case by simp
next
  case (Suc n)
  show ?case
  proof (cases "SpawnReinforcementGroup c e k")
    case None
    with Suc show ?thesis by simp
  next
    case (Some g)
    obtain c2 fx2 s2 where r: "spawn_groups (c\<lparr>m_aReinforcementGroups := m_aReinforcementGroups c @ [g]\<rparr>) e (Suc k) n = (c2, fx2, s2)"
      by (metis prod_cases3)
    from Suc.prems Some r have eq: "c' = c2" "fx = SpawnEntityPrefab g # fx2" by simp_all
    from Suc.IH[OF r] eq show ?thesis by simp
  qed
qed

lemma spawn_wave_tracks:
  assumes "spawn_wave c e w = (c', fx)"
  shows "deleted_by fx = [] \<and>
     (if w = 4
      then m_aReinforcementGroups c' = m_aReinforcementGroups c \<and>
           m_aReinforcementHelicopters c' = m_aReinforcementHelicopters c @ spawned_by fx
      else m_aReinforcementGroups c' = m_aReinforcementGroups c @ spawned_by fx \<and>
           m_aReinforcementHelicopters c' = m_aReinforcementHelicopters c)"
proof (cases "w = 4")
  case True
  with assms show ?thesis
    by (auto simp: spawn_wave_def SpawnArmedHelicopter_def split: if_splits option.splits)
next
  case False
  obtain c2 fx2 s2 where r: "spawn_groups c e 0 (if w = 3 then 2 else REINFORCEMENT_GROUP_COUNT) = (c2, fx2, s2)"
    by (metis prod_cases3)
  from assms False r have eq: "c' = c2"
    "fx = fx2 @ (if s2 > 0 then [BroadcastReinforcementAlert w] else [])"
    by (simp_all add: spawn_wave_def)
  from spawn_groups_tracks[OF r] eq False show ?thesis
    by (simp add: deleted_by_append spawned_by_append)
qed

lemma Trigger_tracks_normal:
  assumes "world_time e = Some now" "TriggerReinforcements False c e w = (c', fx)"
  shows "deleted_by fx = [] \<and>
     (if w = 4
      then m_aReinforcementGroups c' = m_aReinforcementGroups c \<and>
           m_aReinforcementHelicopters c' = m_aReinforcementHelicopters c @ spawned_by fx
      else m_aReinforcementGroups c' = m_aReinforcementGroups c @ spawned_by fx \<and>
           m_aReinforcementHelicopters c' = m_aReinforcementHelicopters c)"
proof -
  obtain c2 fx2 where s: "spawn_wave (c\<lparr>m_tLastReinforcementTime := Some now, m_iReinforcementWave := w\<rparr>) e w = (c2, fx2)"
    by (metis surj_pair)
  from assms s have eq: "c' = c2" "fx = WaveTriggered w # fx2"
    by (simp_all add: TriggerReinforcements_def)
  from spawn_wave_tracks[OF s] eq show ?thesis by (simp split: if_splits)
qed

lemma Trigger_tracks_debug:
  assumes "world_time e = Some now" "TriggerReinforcements True c e w = (c', fx)"
  shows "\<exists>fx2. fx = map DeleteRplEntity
                     (filter (despawnable e) (m_aReinforcementGroups c @ m_aReinforcementHelicopters c))
                   @ WaveTriggered w # fx2 \<and>
           deleted_by fx2 = [] \<and>
           (if w = 4
            then m_aReinforcementGroups c' = [] \<and> m_aReinforcementHelicopters c' = spawned_by fx2
            else m_aReinforcementGroups c' = spawned_by fx2 \<and> m_aReinforcementHelicopters c' = [])"
proof -
  let ?c1 = "c\<lparr>m_aReinforcementGroups := [], m_aReinforcementHelicopters := []\<rparr>"
  obtain c2 fx2 where s: "spawn_wave (?c1\<lparr>m_tLastReinforcementTime := Some now, m_iReinforcementWave := w\<rparr>) e w = (c2, fx2)"
    by (metis surj_pair)
  from assms s have eq: "c' = c2"
    "fx = map DeleteRplEntity
            (filter (despawnable e) (m_aReinforcementGroups c @ m_aReinforcementHelicopters c))
          @ WaveTriggered w # fx2"
    by (simp_all add: TriggerReinforcements_def DespawnPreviousWaveGroups_def despawn_each_map)
  from spawn_wave_tracks[OF s] eq show ?thesis by (auto split: if_splits)
qed

lemma lowestIdForBase_Min:
  "lowestIdForBase b sps low = Min (insert low (sp_id ` members b sps))"
proof (induction sps arbitrary: low)
  case Nil
  then show ?case by (simp add: members_def)
next
  case (Cons sp sps)
  show ?case
  proof (cases "sp_is_defender sp \<and> sp_nearBase sp = Some b")
    case False
    then have "members b (sp # sps) = members b sps" by (auto simp: members_def)
    with False Cons.IH show ?thesis by auto
  next
    case True
    then have m: "members b (sp # sps) = insert sp (members b sps)" by (auto simp: members_def)
    have fin: "finite (sp_id ` members b sps)" by (simp add: members_def)
    have "lowestIdForBase b (sp # sps) low
            = Min (insert (min (sp_id sp) low) (sp_id ` members b sps))"
      using True Cons.IH[of "if sp_id sp < low then sp_id sp else low"]
      by (simp add: min_def not_less)
    also have "\<dots> = Min (insert low (insert (sp_id sp) (sp_id ` members b sps)))"
      using fin by (cases "sp_id ` members b sps = {}") (simp_all add: min.commute min.assoc)
    finally show ?thesis using m by simp
  qed
qed

lemma elected_iff:
  assumes "m_nearBase c = Some b" "allSpawnPoints \<noteq> []"
  shows "elected allSpawnPoints c \<longleftrightarrow>
         owner_id c = Min (insert (owner_id c) (sp_id ` members b allSpawnPoints))"
  using assms
  by (simp add: elected_def InitializeReinforcementCoordinator_def Let_def lowestIdForBase_Min)

lemma members_cong: "set xs = set ys \<Longrightarrow> members b xs = members b ys"
  by (simp add: members_def)

lemma elected_member:
  assumes c: "owner_id c = sp_id m" "m_nearBase c = Some b" and m: "m \<in> members b allSpawnPoints"
  shows "elected allSpawnPoints c \<longleftrightarrow> sp_id m = Min (sp_id ` members b allSpawnPoints)"
proof -
  from m have ne: "allSpawnPoints \<noteq> []" by (auto simp: members_def)
  from m have "insert (sp_id m) (sp_id ` members b allSpawnPoints) = sp_id ` members b allSpawnPoints"
    by auto
  with elected_iff[OF c(2) ne] c(1) show ?thesis by simp
qed

lemma sample_members:
  "members 1 sample_registry =
     {\<lparr>sp_id = 5, sp_is_defender = True, sp_nearBase = Some 1\<rparr>,
      \<lparr>sp_id = 3, sp_is_defender = True, sp_nearBase = Some 1\<rparr>,
      \<lparr>sp_id = 9, sp_is_defender = True, sp_nearBase = Some 1\<rparr>}"
  by (auto simp: members_def sample_registry_def)

lemma Distance_less_iff:
  assumes "0 \<le> r"
  shows "Distance p q < r \<longleftrightarrow> DistanceSq p q < r * r"
proof -
  have "sqrt (DistanceSq p q) < r \<longleftrightarrow> sqrt (DistanceSq p q) < sqrt (r * r)"
    using assms by simp
  also have "\<dots> \<longleftrightarrow> DistanceSq p q < r * r"
    by (rule real_sqrt_less_iff)
  finally show ?thesis by (simp add: Distance_def)
qed

lemma hostile_alive_within_None [simp]: "\<not> hostile_alive_within mf pos r None"
  by (simp add: hostile_alive_within_def)

lemma attacker_in_range_step:
  "attacker_in_range mf pos (Some player # ps) \<longleftrightarrow>
     hostile_alive_within mf pos COMBAT_DETECTION_RANGE (Some player) \<or> attacker_in_range mf pos ps"
proof -
  have r: "0 \<le> COMBAT_DETECTION_RANGE" by (simp add: COMBAT_DETECTION_RANGE_def)
  show ?thesis
  proof (cases "pe_controller_dead player")
    case None
    then show ?thesis by (simp add: hostile_alive_within_def)
  next
    case dead: (Some dead)
    show ?thesis
    proof (cases "pe_character_faction player")
      case None
      with dead show ?thesis by (simp add: hostile_alive_within_def)
    next
      case pf: (Some playerFaction)
      show ?thesis
      proof (cases playerFaction)
        case None
        with dead pf show ?thesis by (simp add: hostile_alive_within_def)
      next
        case (Some g)
        with dead pf show ?thesis
          by (cases "Some g = mf") (auto simp: hostile_alive_within_def Distance_less_iff[OF r])
      qed
    qed
  qed
qed

lemma attacker_in_range_iff:
  "attacker_in_range mf pos ps \<longleftrightarrow>
     (\<exists>p \<in> set ps. hostile_alive_within mf pos COMBAT_DETECTION_RANGE p)"
proof (induction ps)
  case Nil
  then show ?case by simp
next
  case (Cons p ps)
  show ?case
  proof (cases p)
    case None
    with Cons show ?thesis by simp
  next
    case (Some player)
    with Cons show ?thesis by (simp only: attacker_in_range_step list.set bex_simps insert_iff)
  qed
qed

lemma Detect_unfold:
  "DetectCombatAtBase c e \<longleftrightarrow>
     (\<exists>b f ps. m_nearBase c = Some b \<and> base_faction e b = Some f \<and> m_Faction c = Some f \<and>
        playerManager e = Some ps \<and> attacker_in_range (m_Faction c) (base_origin e b) ps)"
  by (cases "m_nearBase c"; cases "playerManager e")
     (auto simp: DetectCombatAtBase_def split: option.splits)

lemma enemy_base_near_iff:
  "enemy_base_near e ourPos bs \<longleftrightarrow>
     (\<exists>x \<in> set bs. Distance ourPos (base_origin e x) < FRONTLINE_RANGE)"
  by (induction bs) auto

lemma ShouldKeep_frame:
  "snd (ShouldKeepDefendersActive c e) = c\<lparr>m_tInactiveSince := m_tInactiveSince (snd (ShouldKeepDefendersActive c e))\<rparr>"
  by (simp add: ShouldKeepDefendersActive_def split: option.splits)

lemma IsBaseOnFrontline_timer [simp]:
  "IsBaseOnFrontline (c\<lparr>m_tInactiveSince := t\<rparr>) e b = IsBaseOnFrontline c e b"
  by (simp add: IsBaseOnFrontline_def split: option.splits)

lemma guard_exec_snoc:
  "guard_exec c (es @ [e]) = snd (ShouldKeepDefendersActive (guard_exec c es) e)"
  by (induction es arbitrary: c) auto

lemma guard_exec_frame:
  "guard_exec c es = c\<lparr>m_tInactiveSince := m_tInactiveSince (guard_exec c es)\<rparr>"
proof (induction es rule: rev_induct)
  case Nil
  then show ?case by simp
next
  case (snoc e es)
  let ?g = "guard_exec c es"
  have "guard_exec c (es @ [e]) = ?g\<lparr>m_tInactiveSince := m_tInactiveSince (guard_exec c (es @ [e]))\<rparr>"
    using ShouldKeep_frame[of ?g e] by (simp only: guard_exec_snoc)
  also have "\<dots> = c\<lparr>m_tInactiveSince := m_tInactiveSince (guard_exec c (es @ [e]))\<rparr>"
    by (subst snoc.IH) simp
  finally show ?case .
qed

lemma ShouldKeep_timer:
  assumes "m_nearBase c = Some b"
  shows "m_tInactiveSince (snd (ShouldKeepDefendersActive c e)) =
     (if \<not> IsBaseFriendly e b then m_tInactiveSince c
      else if IsBaseOnFrontline c e b then None
      else case world_time e of
             None \<Rightarrow> m_tInactiveSince c
           | Some currentTime \<Rightarrow>
               (case m_tInactiveSince c of None \<Rightarrow> Some currentTime | Some since \<Rightarrow> Some since))"
  using assms by (simp add: ShouldKeepDefendersActive_def split: option.splits)

lemma ShouldKeep_false:
  assumes "m_nearBase c = Some b" "\<not> fst (ShouldKeepDefendersActive c e)"
  shows "IsBaseFriendly e b \<and> \<not> IsBaseOnFrontline c e b \<and>
         (\<exists>now since. world_time e = Some now \<and> m_tInactiveSince c = Some since \<and>
            real_of_int INACTIVE_GRACE_PERIOD \<le> DiffMilliseconds now since / 1000)"
  using assms by (auto simp: ShouldKeepDefendersActive_def split: option.splits if_splits)

lemma timer_origin:
  assumes b: "m_nearBase c0 = Some b" and t0: "m_tInactiveSince c0 = None"
  shows "m_tInactiveSince (guard_exec c0 es) = Some t \<Longrightarrow>
     \<exists>pre e0 mid. es = pre @ e0 # mid \<and> world_time e0 = Some t \<and>
        IsBaseFriendly e0 b \<and> \<not> IsBaseOnFrontline c0 e0 b \<and>
        (\<forall>x \<in> set mid. \<not> (IsBaseFriendly x b \<and> IsBaseOnFrontline c0 x b))"
proof (induction es rule: rev_induct)
  case Nil
  with t0 show ?case by simp
next
  case (snoc e es)
  let ?g = "guard_exec c0 es"
  have g: "?g = c0\<lparr>m_tInactiveSince := m_tInactiveSince ?g\<rparr>" by (rule guard_exec_frame)
  have gb: "m_nearBase ?g = Some b" by (subst g) (simp add: b)
  have gf: "IsBaseOnFrontline ?g e b = IsBaseOnFrontline c0 e b" by (subst g) simp
  note step = ShouldKeep_timer[OF gb, of e, unfolded gf]
  from snoc.prems have new: "m_tInactiveSince (snd (ShouldKeepDefendersActive ?g e)) = Some t"
    by (simp only: guard_exec_snoc)
  show ?case
  proof (cases "m_tInactiveSince ?g = Some t \<and> \<not> (IsBaseFriendly e b \<and> IsBaseOnFrontline c0 e b)")
    case True
    with snoc.IH obtain pre e0 mid where
      "es = pre @ e0 # mid" "world_time e0 = Some t" "IsBaseFriendly e0 b"
      "\<not> IsBaseOnFrontline c0 e0 b"
      "\<forall>x \<in> set mid. \<not> (IsBaseFriendly x b \<and> IsBaseOnFrontline c0 x b)"
      by blast
    with True have "es @ [e] = pre @ e0 # (mid @ [e]) \<and> world_time e0 = Some t \<and>
        IsBaseFriendly e0 b \<and> \<not> IsBaseOnFrontline c0 e0 b \<and>
        (\<forall>x \<in> set (mid @ [e]). \<not> (IsBaseFriendly x b \<and> IsBaseOnFrontline c0 x b))"
      by auto
    then show ?thesis by blast
  next
    case False
    with new step have "IsBaseFriendly e b \<and> \<not> IsBaseOnFrontline c0 e b \<and> world_time e = Some t"
      by (auto split: if_splits option.splits)
    then have "es @ [e] = es @ e # [] \<and> world_time e = Some t \<and>
        IsBaseFriendly e b \<and> \<not> IsBaseOnFrontline c0 e b \<and>
        (\<forall>x \<in> set []. \<not> (IsBaseFriendly x b \<and> IsBaseOnFrontline c0 x b))"
      by simp
    then show ?thesis by blast
  qed
qed

lemma guard_false_after_grace:
  assumes b: "m_nearBase c0 = Some b" and t0: "m_tInactiveSince c0 = None"
    and f: "\<not> fst (ShouldKeepDefendersActive (guard_exec c0 es) e)"
  shows "\<exists>pre e0 mid since now. es = pre @ e0 # mid \<and> world_time e0 = Some since \<and>
           world_time e = Some now \<and> 600 \<le> DiffMilliseconds now since / 1000 \<and>
           since + 600000 \<le> now \<and> IsBaseFriendly e0 b \<and> IsBaseFriendly e b \<and>
           (\<forall>x \<in> set (e0 # mid @ [e]). \<not> (IsBaseFriendly x b \<and> IsBaseOnFrontline c0 x b))"
proof -
  let ?g = "guard_exec c0 es"
  have g: "?g = c0\<lparr>m_tInactiveSince := m_tInactiveSince ?g\<rparr>" by (rule guard_exec_frame)
  have gb: "m_nearBase ?g = Some b" by (subst g) (simp add: b)
  have gf: "IsBaseOnFrontline ?g e b = IsBaseOnFrontline c0 e b" by (subst g) simp
  from ShouldKeep_false[OF gb f] gf obtain now since where
    e: "IsBaseFriendly e b" "\<not> IsBaseOnFrontline c0 e b" "world_time e = Some now"
       "m_tInactiveSince ?g = Some since"
       "real_of_int INACTIVE_GRACE_PERIOD \<le> DiffMilliseconds now since / 1000"
    by auto
  from timer_origin[OF b t0 e(4)] obtain pre e0 mid where
    o: "es = pre @ e0 # mid" "world_time e0 = Some since" "IsBaseFriendly e0 b"
       "\<not> IsBaseOnFrontline c0 e0 b"
       "\<forall>x \<in> set mid. \<not> (IsBaseFriendly x b \<and> IsBaseOnFrontline c0 x b)"
    by blast
  from e(5) have d: "600 \<le> DiffMilliseconds now since / 1000" "since + 600000 \<le> now"
    by (simp_all add: INACTIVE_GRACE_PERIOD_def DiffMilliseconds_def)
  from e o d have "es = pre @ e0 # mid \<and> world_time e0 = Some since \<and>
           world_time e = Some now \<and> 600 \<le> DiffMilliseconds now since / 1000 \<and>
           since + 600000 \<le> now \<and> IsBaseFriendly e0 b \<and> IsBaseFriendly e b \<and>
           (\<forall>x \<in> set (e0 # mid @ [e]). \<not> (IsBaseFriendly x b \<and> IsBaseOnFrontline c0 x b))"
    by auto
  then show ?thesis by blast
qed

lemma frontline_clears_timer:
  "m_nearBase c = Some b \<Longrightarrow> IsBaseFriendly e b \<Longrightarrow> IsBaseOnFrontline c e b \<Longrightarrow>
     ShouldKeepDefendersActive c e = (True, c\<lparr>m_tInactiveSince := None\<rparr>)"
  by (simp add: ShouldKeepDefendersActive_def)

lemma frontline_fail_open:
  "gameMode e = None \<or> gameMode e = Some None \<or> factionManager e = None \<or> m_Faction c = None \<or>
   (\<exists>f. m_Faction c = Some f \<and> \<not> campaign_faction e f) \<or>
   (\<exists>f getEnemyFaction. m_Faction c = Some f \<and> factionManager e = Some getEnemyFaction \<and>
        getEnemyFaction f = None)
   \<Longrightarrow> IsBaseOnFrontline c e b"
  by (auto simp: IsBaseOnFrontline_def split: option.splits)

lemma frontline_resolved:
  "gameMode e = Some (Some getBases) \<Longrightarrow> factionManager e = Some getEnemyFaction \<Longrightarrow>
   m_Faction c = Some f \<Longrightarrow> campaign_faction e f \<Longrightarrow> getEnemyFaction f = Some enemyFaction \<Longrightarrow>
   IsBaseOnFrontline c e b \<longleftrightarrow>
     (\<exists>x \<in> set (getBases enemyFaction). Distance (base_origin e b) (base_origin e x) < FRONTLINE_RANGE)"
  by (simp add: IsBaseOnFrontline_def enemy_base_near_iff)

lemmas guard_eval = guard_env_def sample_env_def sample_component_def new_component_def
  ShouldKeepDefendersActive_def IsBaseFriendly_def IsBaseOnFrontline_def Distance_less_iff
  DistanceSq_def FRONTLINE_RANGE_def INACTIVE_GRACE_PERIOD_def DiffMilliseconds_def

lemma step_engagement_start:
  assumes "world_time e = Some now" "\<not> m_bReinforcementActive c"
  shows "m_tCombatStartTime (fst (UpdateReinforcementState dbg c e True)) = Some now"
    and "m_bReinforcementActive (fst (UpdateReinforcementState dbg c e True))"
proof -
  have u: "UpdateReinforcementState dbg c e True = check_thresholds dbg (engage c now) e now"
    using assms by (simp add: Update_unfold)
  have s: "m_tCombatStartTime (engage c now) = Some now" "m_bReinforcementActive (engage c now)"
    using assms(2) by (simp_all add: engage_def)
  from check_thresholds_cases[of dbg "engage c now" e now]
  show "m_tCombatStartTime (fst (UpdateReinforcementState dbg c e True)) = Some now"
    using u s by (auto simp: Trigger_fields(4)[OF assms(1)])
  from check_thresholds_cases[of dbg "engage c now" e now]
  show "m_bReinforcementActive (fst (UpdateReinforcementState dbg c e True))"
    using u s by (auto simp: Trigger_fields(3)[OF assms(1)])
qed

lemma step_end_keeps_start:
  assumes "m_bReinforcementActive c" "\<not> m_bReinforcementActive (fst (UpdateReinforcementState dbg c e a))"
  shows "m_tCombatStartTime (fst (UpdateReinforcementState dbg c e a)) = m_tCombatStartTime c"
proof (cases "world_time e")
  case None
  then show ?thesis by (simp add: Update_unfold)
next
  case (Some now)
  show ?thesis
  proof (cases a)
    case False
    with Some assms show ?thesis by (simp add: Update_unfold Reset_fields)
  next
    case True
    have u: "UpdateReinforcementState dbg c e a = check_thresholds dbg c e now"
      using Some True assms(1) by (simp add: Update_unfold engage_fields)
    from check_thresholds_cases[of dbg c e now] u show ?thesis
      by (auto simp: Trigger_fields(4)[OF Some])
  qed
qed

lemma run_reset: "exec DEBUG_MODE sample_component
     [(sample_env 0 7, True), (sample_env 301000 7, True), (sample_env 330000 8, False)] =
   sample_component\<lparr>m_tCombatStartTime := Some 0, m_bReinforcementActive := False,
       m_iReinforcementWave := 0, m_tLastReinforcementTime := Some 301000, m_aReinforcementGroups := [7]\<rparr>"
  by (simp add: eval_defs)

lemma step_fired_evaluated:
  "w \<in> set (fired (snd (UpdateReinforcementState dbg c e a))) \<Longrightarrow> w \<in> set evaluated_waves"
  using step_fired_cases[of dbg c e a] by auto

lemma exec_fired_evaluated:
  "w \<in> set (fired (exec_fx dbg c ts)) \<Longrightarrow> w \<in> set evaluated_waves"
proof (induction ts arbitrary: c)
  case Nil
  then show ?case by simp
next
  case (Cons t ts)
  from Cons.prems have "w \<in> set (fired (snd (UpdateReinforcementState dbg c (fst t) (snd t))))
     \<or> w \<in> set (fired (exec_fx dbg (fst (UpdateReinforcementState dbg c (fst t) (snd t))) ts))"
    by (simp add: fired_append)
  then show ?case using step_fired_evaluated Cons.IH by blast
qed

lemma player_on_faction_iff:
  "player_on_faction f ps \<longleftrightarrow>
     list_ex (\<lambda>p. case p of None \<Rightarrow> False
                   | Some player \<Rightarrow> pe_character_faction player = Some (Some f)) ps"
proof (induction ps)
  case Nil
  then show ?case by simp
next
  case (Cons p ps)
  show ?case
  proof (cases p)
    case None
    with Cons show ?thesis by simp
  next
    case (Some player)
    with Cons show ?thesis by (cases "pe_character_faction player") auto
  qed
qed

lemma IsBaseFriendly_iff: "IsBaseFriendly e b \<longleftrightarrow> player_faction_holds e b"
  by (simp add: IsBaseFriendly_def player_faction_holds_def player_on_faction_iff
           split: option.splits)

lemma not_friendly_kept:
  "m_nearBase c = Some b \<Longrightarrow> \<not> IsBaseFriendly e b \<Longrightarrow> ShouldKeepDefendersActive c e = (True, c)"
  by (simp add: ShouldKeepDefendersActive_def)

lemma PrepareBase_fields:
  "m_nearBase (fst (PrepareBase c e)) = framework_nearBase e"
  "m_tInactiveSince (fst (PrepareBase c e)) = m_tInactiveSince c"
  "m_Faction (fst (PrepareBase c e)) = m_Faction c"
  by (simp_all add: PrepareBase_def Let_def)

lemma UpdateTarget_not_friendly:
  assumes "framework_baseReady e" "framework_nearBase e = Some b" "\<not> IsBaseFriendly e b"
  shows "fst (UpdateTarget c e) = Some True"
    and "m_tInactiveSince (fst (snd (UpdateTarget c e))) = m_tInactiveSince c"
proof -
  obtain c1 fx where p: "PrepareBase c e = (c1, fx)" by (cases "PrepareBase c e") auto
  with PrepareBase_fields[of c e] assms(2)
  have c1: "m_nearBase c1 = Some b" "m_tInactiveSince c1 = m_tInactiveSince c" by simp_all
  with p assms show "fst (UpdateTarget c e) = Some True"
    and "m_tInactiveSince (fst (snd (UpdateTarget c e))) = m_tInactiveSince c"
    by (simp_all add: UpdateTarget_def)
qed

lemma friendly_rear_expired:
  "m_nearBase c = Some b \<Longrightarrow> IsBaseFriendly e b \<Longrightarrow> \<not> IsBaseOnFrontline c e b \<Longrightarrow>
   world_time e = Some now \<Longrightarrow> m_tInactiveSince c = Some since \<Longrightarrow>
   600 \<le> DiffMilliseconds now since / 1000 \<Longrightarrow> \<not> fst (ShouldKeepDefendersActive c e)"
  by (simp add: ShouldKeepDefendersActive_def INACTIVE_GRACE_PERIOD_def)

section \<open>The claims\<close>

text \<open>
  Claim C2. For every sequence of ticks \<open>ts\<close> fed to the state update from any component
  \<open>c0\<close>, and every further tick: if reinforcement tracking is active before and after the
  tick, the wave counter does not decrease; if it is active before and inactive after, the
  wave counter is exactly 0 after the tick.
\<close>

theorem wave_counter_monotone_and_reset:
  "(m_bReinforcementActive (exec dbg c0 ts) \<and>
    m_bReinforcementActive (fst (UpdateReinforcementState dbg (exec dbg c0 ts) e a))
      \<longrightarrow> m_iReinforcementWave (exec dbg c0 ts)
            \<le> m_iReinforcementWave (fst (UpdateReinforcementState dbg (exec dbg c0 ts) e a)))
   \<and> (m_bReinforcementActive (exec dbg c0 ts) \<and>
      \<not> m_bReinforcementActive (fst (UpdateReinforcementState dbg (exec dbg c0 ts) e a))
      \<longrightarrow> m_iReinforcementWave (fst (UpdateReinforcementState dbg (exec dbg c0 ts) e a)) = 0)"
  using step_wave_monotone step_reset_zero by blast

theorem wave_counter_monotone_and_reset_witness:
  "(m_bReinforcementActive (exec DEBUG_MODE sample_component [(sample_env 0 7, True)]) \<and>
    m_bReinforcementActive (fst (UpdateReinforcementState DEBUG_MODE
        (exec DEBUG_MODE sample_component [(sample_env 0 7, True)]) (sample_env 301000 7) True)) \<and>
    m_iReinforcementWave (exec DEBUG_MODE sample_component [(sample_env 0 7, True)])
      \<le> m_iReinforcementWave (fst (UpdateReinforcementState DEBUG_MODE
        (exec DEBUG_MODE sample_component [(sample_env 0 7, True)]) (sample_env 301000 7) True)))
   \<and> (m_bReinforcementActive (exec DEBUG_MODE sample_component
          [(sample_env 0 7, True), (sample_env 301000 7, True)]) \<and>
      \<not> m_bReinforcementActive (fst (UpdateReinforcementState DEBUG_MODE
          (exec DEBUG_MODE sample_component [(sample_env 0 7, True), (sample_env 301000 7, True)])
          (sample_env 330000 8) False)) \<and>
      m_iReinforcementWave (fst (UpdateReinforcementState DEBUG_MODE
          (exec DEBUG_MODE sample_component [(sample_env 0 7, True), (sample_env 301000 7, True)])
          (sample_env 330000 8) False)) = 0)"
proof -
  have a1: "m_bReinforcementActive (exec DEBUG_MODE sample_component [(sample_env 0 7, True)])"
    by (simp add: eval_defs)
  have a2: "m_bReinforcementActive (fst (UpdateReinforcementState DEBUG_MODE
        (exec DEBUG_MODE sample_component [(sample_env 0 7, True)]) (sample_env 301000 7) True))"
    by (simp add: eval_defs)
  have b1: "m_bReinforcementActive (exec DEBUG_MODE sample_component
          [(sample_env 0 7, True), (sample_env 301000 7, True)])"
    by (simp add: eval_defs)
  have b2: "\<not> m_bReinforcementActive (fst (UpdateReinforcementState DEBUG_MODE
          (exec DEBUG_MODE sample_component [(sample_env 0 7, True), (sample_env 301000 7, True)])
          (sample_env 330000 8) False))"
    by (simp add: eval_defs)
  from a1 a2 b1 b2
    wave_counter_monotone_and_reset[of DEBUG_MODE sample_component "[(sample_env 0 7, True)]"
      "sample_env 301000 7" True]
    wave_counter_monotone_and_reset[of DEBUG_MODE sample_component
      "[(sample_env 0 7, True), (sample_env 301000 7, True)]" "sample_env 330000 8" False]
  show ?thesis by blast
qed

text \<open>
  Claim C4. In every execution, when a tick fires a wave and a time \<open>t\<close> is recorded for the
  previously fired wave, the world clock of that tick reads at least 10 seconds (10000 ms)
  more than \<open>t\<close>, whatever detector result is fed to the tick.
\<close>

theorem cooldown_between_waves:
  assumes "fired (snd (UpdateReinforcementState dbg (exec dbg c0 ts) e a)) \<noteq> []"
    and "m_tLastReinforcementTime (exec dbg c0 ts) = Some t"
  shows "\<exists>now. world_time e = Some now \<and> 10 \<le> DiffMilliseconds now t / 1000 \<and> t + 10000 \<le> now"
proof -
  from step_fire_time[OF assms(1)] obtain now where
    n: "world_time e = Some now" "\<not> in_cooldown (exec dbg c0 ts) now" by blast
  from n(2) assms(2) have "10 \<le> DiffMilliseconds now t / 1000"
    by (simp add: in_cooldown_def)
  with n(1) not_cooldown_ge[OF n(2) assms(2)] show ?thesis by simp
qed

theorem cooldown_between_waves_witness:
  "fired (snd (UpdateReinforcementState DEBUG_MODE
       (exec DEBUG_MODE sample_component [(sample_env 0 7, True), (sample_env 301000 7, True)])
       (sample_env 601000 8) True)) \<noteq> []
   \<and> m_tLastReinforcementTime
       (exec DEBUG_MODE sample_component [(sample_env 0 7, True), (sample_env 301000 7, True)])
       = Some 301000
   \<and> (\<exists>now. world_time (sample_env 601000 8) = Some now \<and>
         10 \<le> DiffMilliseconds now 301000 / 1000 \<and> 301000 + 10000 \<le> now)"
proof -
  have f: "fired (snd (UpdateReinforcementState DEBUG_MODE
       (exec DEBUG_MODE sample_component [(sample_env 0 7, True), (sample_env 301000 7, True)])
       (sample_env 601000 8) True)) \<noteq> []"
    by (simp add: eval_defs)
  have l: "m_tLastReinforcementTime
       (exec DEBUG_MODE sample_component [(sample_env 0 7, True), (sample_env 301000 7, True)])
       = Some 301000"
    by (simp add: eval_defs)
  from f l cooldown_between_waves[OF f l] show ?thesis by blast
qed

text \<open>
  Claim C10. The reset clears the active flag and the wave counter and keeps the time
  recorded for the last wave. Hence in every execution, a tick that fires a wave after an
  earlier tick has fired one (with any ticks in between, among them ends of combat and
  re-engagements) has a clock reading at least 10 seconds (10000 ms) above that of the
  earlier tick.
\<close>

theorem cooldown_spans_engagements:
  "m_tLastReinforcementTime (fst (ResetReinforcementState dbg c e)) = m_tLastReinforcementTime c
   \<and> \<not> m_bReinforcementActive (fst (ResetReinforcementState dbg c e))
   \<and> m_iReinforcementWave (fst (ResetReinforcementState dbg c e)) = 0
   \<and> (fired (snd (UpdateReinforcementState dbg (exec dbg c0 ts1) (fst t1) (snd t1))) \<noteq> [] \<and>
      fired (snd (UpdateReinforcementState dbg (exec dbg c0 (ts1 @ t1 # ts2)) (fst t2) (snd t2))) \<noteq> [] \<and>
      world_time (fst t1) = Some u1 \<and> world_time (fst t2) = Some u2
      \<longrightarrow> u1 + 10000 \<le> u2)"
  using cooldown_spans[of dbg c0 ts1 t1 ts2 t2 u1 u2] by (simp add: Reset_fields)

theorem cooldown_spans_engagements_witness:
  "fired (snd (UpdateReinforcementState DEBUG_MODE
       (exec DEBUG_MODE sample_component [(sample_env 0 7, True)])
       (fst (sample_env 301000 7, True)) (snd (sample_env 301000 7, True)))) \<noteq> []
   \<and> \<not> m_bReinforcementActive (exec DEBUG_MODE sample_component
       ([(sample_env 0 7, True)] @ (sample_env 301000 7, True) # [(sample_env 330000 8, False)]))
   \<and> fired (snd (UpdateReinforcementState DEBUG_MODE
       (exec DEBUG_MODE sample_component
          ([(sample_env 0 7, True)] @ (sample_env 301000 7, True)
             # [(sample_env 330000 8, False), (sample_env 360000 8, True)]))
       (fst (sample_env 660000 8, True)) (snd (sample_env 660000 8, True)))) \<noteq> []
   \<and> (301000::int) + 10000 \<le> 660000"
proof -
  have f1: "fired (snd (UpdateReinforcementState DEBUG_MODE
       (exec DEBUG_MODE sample_component [(sample_env 0 7, True)])
       (fst (sample_env 301000 7, True)) (snd (sample_env 301000 7, True)))) \<noteq> []"
    by (simp add: eval_defs)
  have r: "\<not> m_bReinforcementActive (exec DEBUG_MODE sample_component
       ([(sample_env 0 7, True)] @ (sample_env 301000 7, True) # [(sample_env 330000 8, False)]))"
    by (simp add: eval_defs)
  have f2: "fired (snd (UpdateReinforcementState DEBUG_MODE
       (exec DEBUG_MODE sample_component
          ([(sample_env 0 7, True)] @ (sample_env 301000 7, True)
             # [(sample_env 330000 8, False), (sample_env 360000 8, True)]))
       (fst (sample_env 660000 8, True)) (snd (sample_env 660000 8, True)))) \<noteq> []"
    by (simp add: eval_defs)
  have w1: "world_time (fst (sample_env 301000 7, True)) = Some 301000"
    and w2: "world_time (fst (sample_env 660000 8, True)) = Some 660000"
    by (simp_all add: sample_env_def)
  from f1 r f2 w1 w2
    cooldown_spans_engagements[of DEBUG_MODE sample_component "sample_env 0 7" sample_component
      "[(sample_env 0 7, True)]" "(sample_env 301000 7, True)"
      "[(sample_env 330000 8, False), (sample_env 360000 8, True)]" "(sample_env 660000 8, True)"
      301000 660000]
  show ?thesis by blast
qed

text \<open>
  Claim C1, as stated, fails on the shipped configuration. In the scenario of continuous
  attack with ticks at 0 s, 301 s and 601 s, waves 1 and 2 fire, entities 7 and 8 are
  spawned, no entity is deleted although entity 7 could be, and after wave 2 both are
  tracked.
\<close>

theorem previous_wave_still_tracked_counterexample:
  "fired (exec_fx DEBUG_MODE sample_component
       [(sample_env 0 7, True), (sample_env 301000 7, True), (sample_env 601000 8, True)]) = [1, 2]
   \<and> spawned_by (exec_fx DEBUG_MODE sample_component
       [(sample_env 0 7, True), (sample_env 301000 7, True), (sample_env 601000 8, True)]) = [7, 8]
   \<and> deleted_by (exec_fx DEBUG_MODE sample_component
       [(sample_env 0 7, True), (sample_env 301000 7, True), (sample_env 601000 8, True)]) = []
   \<and> despawnable (sample_env 601000 8) 7
   \<and> m_aReinforcementGroups (exec DEBUG_MODE sample_component
       [(sample_env 0 7, True), (sample_env 301000 7, True)]) = [7]
   \<and> m_aReinforcementGroups (exec DEBUG_MODE sample_component
       [(sample_env 0 7, True), (sample_env 301000 7, True), (sample_env 601000 8, True)]) = [7, 8]"
proof -
  have "despawnable (sample_env 601000 8) 7"
    by (simp add: despawnable_def sample_env_def)
  then show ?thesis
    by (simp only: run1 run2 run2_fx) simp
qed

text \<open>
  Claim C1, amended. For every wave trigger with a world: with debug mode off (as shipped) the
  trigger deletes nothing and keeps what is tracked, appending the entities it spawns (the
  helicopter of wave 4 to the helicopter list, groups to the group list); with debug mode on,
  its effects start with the deletion of every tracked group and helicopter that is neither
  null nor already deleted, before anything is spawned, and afterwards exactly the entities
  spawned by this trigger are tracked.
\<close>

theorem trigger_despawns_only_in_debug_mode:
  "world_time e = Some now \<Longrightarrow>
   (\<not> dbg \<longrightarrow>
      deleted_by (snd (TriggerReinforcements dbg c e w)) = [] \<and>
      (if w = 4
       then m_aReinforcementGroups (fst (TriggerReinforcements dbg c e w)) = m_aReinforcementGroups c \<and>
            m_aReinforcementHelicopters (fst (TriggerReinforcements dbg c e w))
              = m_aReinforcementHelicopters c @ spawned_by (snd (TriggerReinforcements dbg c e w))
       else m_aReinforcementGroups (fst (TriggerReinforcements dbg c e w))
              = m_aReinforcementGroups c @ spawned_by (snd (TriggerReinforcements dbg c e w)) \<and>
            m_aReinforcementHelicopters (fst (TriggerReinforcements dbg c e w))
              = m_aReinforcementHelicopters c))
   \<and> (dbg \<longrightarrow>
        (\<exists>fx2. snd (TriggerReinforcements dbg c e w)
                 = map DeleteRplEntity
                     (filter (despawnable e) (m_aReinforcementGroups c @ m_aReinforcementHelicopters c))
                   @ WaveTriggered w # fx2 \<and>
               deleted_by fx2 = [] \<and>
               (if w = 4
                then m_aReinforcementGroups (fst (TriggerReinforcements dbg c e w)) = [] \<and>
                     m_aReinforcementHelicopters (fst (TriggerReinforcements dbg c e w)) = spawned_by fx2
                else m_aReinforcementGroups (fst (TriggerReinforcements dbg c e w)) = spawned_by fx2 \<and>
                     m_aReinforcementHelicopters (fst (TriggerReinforcements dbg c e w)) = [])))"
proof (cases dbg)
  case True
  assume w: "world_time e = Some now"
  have d: "dbg = True" using True by simp
  have t: "TriggerReinforcements True c e w
             = (fst (TriggerReinforcements True c e w), snd (TriggerReinforcements True c e w))"
    by simp
  show ?thesis unfolding d using Trigger_tracks_debug[OF w t] by blast
next
  case False
  assume w: "world_time e = Some now"
  have d: "dbg = False" using False by simp
  have t: "TriggerReinforcements False c e w
             = (fst (TriggerReinforcements False c e w), snd (TriggerReinforcements False c e w))"
    by simp
  show ?thesis unfolding d using Trigger_tracks_normal[OF w t] by blast
qed

theorem trigger_despawns_only_in_debug_mode_witness:
  "world_time (sample_env 601000 8) = Some 601000 \<and> \<not> DEBUG_MODE
   \<and> deleted_by (snd (TriggerReinforcements DEBUG_MODE
         (exec DEBUG_MODE sample_component [(sample_env 0 7, True), (sample_env 301000 7, True)])
         (sample_env 601000 8) 2)) = []
   \<and> m_aReinforcementGroups (fst (TriggerReinforcements DEBUG_MODE
         (exec DEBUG_MODE sample_component [(sample_env 0 7, True), (sample_env 301000 7, True)])
         (sample_env 601000 8) 2)) = [7, 8]
   \<and> (\<exists>fx2. snd (TriggerReinforcements True
         (exec DEBUG_MODE sample_component [(sample_env 0 7, True), (sample_env 301000 7, True)])
         (sample_env 601000 8) 2) = DeleteRplEntity 7 # WaveTriggered 2 # fx2
         \<and> m_aReinforcementGroups (fst (TriggerReinforcements True
         (exec DEBUG_MODE sample_component [(sample_env 0 7, True), (sample_env 301000 7, True)])
         (sample_env 601000 8) 2)) = spawned_by fx2)"
proof -
  let ?c = "exec DEBUG_MODE sample_component [(sample_env 0 7, True), (sample_env 301000 7, True)]"
  have h1: "world_time (sample_env 601000 8) = Some 601000"
    by (simp add: sample_env_def)
  have h2: "\<not> DEBUG_MODE" by (simp add: DEBUG_MODE_def)
  have g: "m_aReinforcementGroups ?c = [7]" "m_aReinforcementHelicopters ?c = []"
    by (subst run1, simp add: sample_component_def new_component_def)+
  have s: "spawned_by (snd (TriggerReinforcements DEBUG_MODE ?c (sample_env 601000 8) 2)) = [8]"
    by (subst run1, simp add: eval_defs)
  have f: "despawnable (sample_env 601000 8) 7"
    by (simp add: despawnable_def sample_env_def)
  from trigger_despawns_only_in_debug_mode[OF h1, of DEBUG_MODE ?c 2] h2 g s
  have n: "deleted_by (snd (TriggerReinforcements DEBUG_MODE ?c (sample_env 601000 8) 2)) = []"
    "m_aReinforcementGroups (fst (TriggerReinforcements DEBUG_MODE ?c (sample_env 601000 8) 2)) = [7, 8]"
    by (simp_all del: exec.simps)
  from trigger_despawns_only_in_debug_mode[OF h1, of True ?c 2] g f
  have "\<exists>fx2. snd (TriggerReinforcements True ?c (sample_env 601000 8) 2)
                 = DeleteRplEntity 7 # WaveTriggered 2 # fx2
         \<and> m_aReinforcementGroups (fst (TriggerReinforcements True ?c (sample_env 601000 8) 2))
             = spawned_by fx2"
    by (auto simp del: exec.simps)
  with h1 h2 n show ?thesis by blast
qed

text \<open>
  Claim C6. Let the defender spawn points registered for base \<open>b\<close> have pairwise distinct
  ids, and let each of them run the election over the registry as the component \<open>self x\<close>
  with that id and base. Then a member is marked coordinator exactly if its id is the minimum
  of the members' ids, exactly one member is marked, and the mark of a member is the same for
  every registry list with the same set of entries.
\<close>

theorem coordinator_is_minimum_identity:
  assumes self: "\<forall>x \<in> members b allSpawnPoints.
                   owner_id (self x) = sp_id x \<and> m_nearBase (self x) = Some b"
    and inj: "inj_on sp_id (members b allSpawnPoints)"
    and m: "m \<in> members b allSpawnPoints"
  shows "(elected allSpawnPoints (self m) \<longleftrightarrow> sp_id m = Min (sp_id ` members b allSpawnPoints))
       \<and> (\<exists>!x. x \<in> members b allSpawnPoints \<and> elected allSpawnPoints (self x))
       \<and> (\<forall>reordered. set reordered = set allSpawnPoints \<longrightarrow>
             elected reordered (self m) = elected allSpawnPoints (self m))"
proof (intro conjI)
  let ?M = "members b allSpawnPoints"
  have el: "elected allSpawnPoints (self x) \<longleftrightarrow> sp_id x = Min (sp_id ` ?M)" if "x \<in> ?M" for x
    using elected_member[of "self x" x b allSpawnPoints] self that by blast
  from el[OF m] show "elected allSpawnPoints (self m) \<longleftrightarrow> sp_id m = Min (sp_id ` ?M)" .
  have fin: "finite (sp_id ` ?M)" by (simp add: members_def)
  have ne: "sp_id ` ?M \<noteq> {}" using m by auto
  from Min_in[OF fin ne] obtain x where x: "x \<in> ?M" "sp_id x = Min (sp_id ` ?M)" by auto
  show "\<exists>!x. x \<in> ?M \<and> elected allSpawnPoints (self x)"
  proof (rule ex1I[of _ x])
    from x el show "x \<in> ?M \<and> elected allSpawnPoints (self x)" by blast
  next
    fix y assume "y \<in> ?M \<and> elected allSpawnPoints (self y)"
    with el have y: "y \<in> ?M" "sp_id y = Min (sp_id ` ?M)" by blast+
    with x have "sp_id y = sp_id x" by simp
    from inj_onD[OF inj this y(1) x(1)] show "y = x" .
  qed
  show "\<forall>reordered. set reordered = set allSpawnPoints \<longrightarrow>
             elected reordered (self m) = elected allSpawnPoints (self m)"
  proof (intro allI impI)
    fix reordered assume s: "set reordered = set allSpawnPoints"
    from members_cong[OF s] have eq: "members b reordered = ?M" .
    with m have m': "m \<in> members b reordered" by simp
    from self m have c: "owner_id (self m) = sp_id m" "m_nearBase (self m) = Some b" by blast+
    from elected_member[OF c m'] elected_member[OF c m] eq
    show "elected reordered (self m) = elected allSpawnPoints (self m)" by simp
  qed
qed

theorem coordinator_is_minimum_identity_witness:
  "owner_id (sample_self \<lparr>sp_id = 3, sp_is_defender = True, sp_nearBase = Some 1\<rparr>) = 3
   \<and> m_nearBase (sample_self \<lparr>sp_id = 3, sp_is_defender = True, sp_nearBase = Some 1\<rparr>) = Some 1
   \<and> inj_on sp_id (members 1 sample_registry)
   \<and> \<lparr>sp_id = 3, sp_is_defender = True, sp_nearBase = Some 1\<rparr> \<in> members 1 sample_registry
   \<and> elected sample_registry
        (sample_self \<lparr>sp_id = 3, sp_is_defender = True, sp_nearBase = Some 1\<rparr>)
   \<and> (\<exists>!x. x \<in> members 1 sample_registry \<and> elected sample_registry (sample_self x))
   \<and> elected (rev sample_registry)
        (sample_self \<lparr>sp_id = 3, sp_is_defender = True, sp_nearBase = Some 1\<rparr>)
       = elected sample_registry
        (sample_self \<lparr>sp_id = 3, sp_is_defender = True, sp_nearBase = Some 1\<rparr>)"
proof -
  have h1: "\<forall>x \<in> members 1 sample_registry.
       owner_id (sample_self x) = sp_id x \<and> m_nearBase (sample_self x) = Some 1"
    unfolding sample_members by (simp add: sample_self_def new_component_def)
  have h2: "inj_on sp_id (members 1 sample_registry)"
    unfolding sample_members by simp
  have h3: "\<lparr>sp_id = 3, sp_is_defender = True, sp_nearBase = Some 1\<rparr> \<in> members 1 sample_registry"
    unfolding sample_members by simp
  have mn: "Min (sp_id ` members 1 sample_registry) = 3"
    unfolding sample_members by simp
  have rv: "set (rev sample_registry) = set sample_registry" by simp
  have h0: "owner_id (sample_self \<lparr>sp_id = 3, sp_is_defender = True, sp_nearBase = Some 1\<rparr>) = 3"
    "m_nearBase (sample_self \<lparr>sp_id = 3, sp_is_defender = True, sp_nearBase = Some 1\<rparr>) = Some 1"
    by (simp_all add: sample_self_def new_component_def)
  from coordinator_is_minimum_identity[OF h1 h2 h3] mn rv h0 h2 h3
  show ?thesis by auto
qed

text \<open>
  Claim C7. The detector returns true exactly if the base is resolved, its faction is
  resolved and is the defending faction, the player manager is resolved, and some player
  controls a hostile actor that is alive and less than 300 units from the base. It returns
  false when the base, the faction of the base or the player manager is not resolved.
\<close>

theorem detect_iff_under_attack:
  "(DetectCombatAtBase c e \<longleftrightarrow>
      (\<exists>b f ps. m_nearBase c = Some b \<and> base_faction e b = Some f \<and> m_Faction c = Some f \<and>
          playerManager e = Some ps \<and>
          (\<exists>p \<in> set ps. hostile_alive_within (m_Faction c) (base_origin e b) COMBAT_DETECTION_RANGE p)))
   \<and> COMBAT_DETECTION_RANGE = 300
   \<and> (m_nearBase c = None \<longrightarrow> \<not> DetectCombatAtBase c e)
   \<and> (\<forall>b. m_nearBase c = Some b \<and> base_faction e b = None \<longrightarrow> \<not> DetectCombatAtBase c e)
   \<and> (playerManager e = None \<longrightarrow> \<not> DetectCombatAtBase c e)"
proof -
  have p1: "DetectCombatAtBase c e \<longleftrightarrow>
      (\<exists>b f ps. m_nearBase c = Some b \<and> base_faction e b = Some f \<and> m_Faction c = Some f \<and>
          playerManager e = Some ps \<and>
          (\<exists>p \<in> set ps. hostile_alive_within (m_Faction c) (base_origin e b) COMBAT_DETECTION_RANGE p))"
    by (simp only: Detect_unfold attacker_in_range_iff)
  have p2: "COMBAT_DETECTION_RANGE = 300" by (simp add: COMBAT_DETECTION_RANGE_def)
  have p3: "m_nearBase c = None \<longrightarrow> \<not> DetectCombatAtBase c e"
    by (simp add: Detect_unfold)
  have p4: "\<forall>b. m_nearBase c = Some b \<and> base_faction e b = None \<longrightarrow> \<not> DetectCombatAtBase c e"
    by (auto simp: Detect_unfold)
  have p5: "playerManager e = None \<longrightarrow> \<not> DetectCombatAtBase c e"
    by (simp add: Detect_unfold)
  from p1 p2 p3 p4 p5 show ?thesis by blast
qed

theorem detect_iff_under_attack_witness:
  "DetectCombatAtBase sample_component attack_env
   \<and> (\<exists>b f ps. m_nearBase sample_component = Some b \<and> base_faction attack_env b = Some f \<and>
          m_Faction sample_component = Some f \<and> playerManager attack_env = Some ps \<and>
          (\<exists>p \<in> set ps. hostile_alive_within (m_Faction sample_component) (base_origin attack_env b)
                          COMBAT_DETECTION_RANGE p))
   \<and> m_nearBase (sample_component\<lparr>m_nearBase := None\<rparr>) = None
   \<and> \<not> DetectCombatAtBase (sample_component\<lparr>m_nearBase := None\<rparr>) attack_env
   \<and> m_nearBase sample_component = Some 1
   \<and> base_faction (attack_env\<lparr>base_faction := (\<lambda>_. None)\<rparr>) 1 = None
   \<and> \<not> DetectCombatAtBase sample_component (attack_env\<lparr>base_faction := (\<lambda>_. None)\<rparr>)
   \<and> playerManager (attack_env\<lparr>playerManager := None\<rparr>) = None
   \<and> \<not> DetectCombatAtBase sample_component (attack_env\<lparr>playerManager := None\<rparr>)"
proof -
  have d: "DetectCombatAtBase sample_component attack_env"
    by (simp add: DetectCombatAtBase_def attack_env_def sample_env_def sample_component_def
        new_component_def DistanceSq_def COMBAT_DETECTION_RANGE_def)
  have h1: "m_nearBase (sample_component\<lparr>m_nearBase := None\<rparr>) = None" by simp
  have h2: "m_nearBase sample_component = Some 1"
    by (simp add: sample_component_def new_component_def)
  have h3: "base_faction (attack_env\<lparr>base_faction := (\<lambda>_. None)\<rparr>) 1 = None" by simp
  have h4: "playerManager (attack_env\<lparr>playerManager := None\<rparr>) = None" by simp
  from d h1 h2 h3 h4
    detect_iff_under_attack[of sample_component attack_env]
    detect_iff_under_attack[of "sample_component\<lparr>m_nearBase := None\<rparr>" attack_env]
    detect_iff_under_attack[of sample_component "attack_env\<lparr>base_faction := (\<lambda>_. None)\<rparr>"]
    detect_iff_under_attack[of sample_component "attack_env\<lparr>playerManager := None\<rparr>"]
  show ?thesis by blast
qed

text \<open>
  Claim C5, as stated, fails: after combat was detected at time 0 and has ended at the next
  tick, tracking is inactive while the combat start time is still set.
\<close>

theorem start_time_survives_reset_counterexample:
  "\<not> (m_tCombatStartTime (exec DEBUG_MODE sample_component
            [(sample_env 0 7, True), (sample_env 30000 7, False)]) \<noteq> None
       \<longleftrightarrow> m_bReinforcementActive (exec DEBUG_MODE sample_component
            [(sample_env 0 7, True), (sample_env 30000 7, False)]))"
  by (simp add: eval_defs)

text \<open>
  Claim C5, amended. In every state reachable from a newly constructed component, an active
  reinforcement tracking has its combat start time set. The reset clears the active flag and
  the wave counter and leaves the combat start time as it was, and so does every tick on
  which the tracking goes from active to inactive. A tick with a world on which combat is
  detected while the tracking is inactive makes it active and sets the combat start time to
  the clock of that tick, whatever it was before.
\<close>

theorem active_implies_start_time:
  "(m_bReinforcementActive (exec dbg (new_component ident prefab f b) ts)
      \<longrightarrow> m_tCombatStartTime (exec dbg (new_component ident prefab f b) ts) \<noteq> None)
   \<and> m_tCombatStartTime (fst (ResetReinforcementState dbg c e)) = m_tCombatStartTime c
   \<and> \<not> m_bReinforcementActive (fst (ResetReinforcementState dbg c e))
   \<and> m_iReinforcementWave (fst (ResetReinforcementState dbg c e)) = 0
   \<and> (m_bReinforcementActive c \<and> \<not> m_bReinforcementActive (fst (UpdateReinforcementState dbg c e a))
        \<longrightarrow> m_tCombatStartTime (fst (UpdateReinforcementState dbg c e a)) = m_tCombatStartTime c
            \<and> m_iReinforcementWave (fst (UpdateReinforcementState dbg c e a)) = 0)
   \<and> (world_time e = Some now \<and> \<not> m_bReinforcementActive c
        \<longrightarrow> m_bReinforcementActive (fst (UpdateReinforcementState dbg c e True))
            \<and> m_tCombatStartTime (fst (UpdateReinforcementState dbg c e True)) = Some now)"
proof -
  have "m_bReinforcementActive (new_component ident prefab f b)
          \<longrightarrow> m_tCombatStartTime (new_component ident prefab f b) \<noteq> None"
    by (simp add: new_component_def)
  from exec_active_start[OF this]
  have p1: "m_bReinforcementActive (exec dbg (new_component ident prefab f b) ts)
      \<longrightarrow> m_tCombatStartTime (exec dbg (new_component ident prefab f b) ts) \<noteq> None" .
  have p2: "m_tCombatStartTime (fst (ResetReinforcementState dbg c e)) = m_tCombatStartTime c"
    "\<not> m_bReinforcementActive (fst (ResetReinforcementState dbg c e))"
    "m_iReinforcementWave (fst (ResetReinforcementState dbg c e)) = 0"
    by (simp_all add: Reset_fields)
  have p3: "m_bReinforcementActive c \<and> \<not> m_bReinforcementActive (fst (UpdateReinforcementState dbg c e a))
        \<longrightarrow> m_tCombatStartTime (fst (UpdateReinforcementState dbg c e a)) = m_tCombatStartTime c
            \<and> m_iReinforcementWave (fst (UpdateReinforcementState dbg c e a)) = 0"
    using step_end_keeps_start step_reset_zero by blast
  have p4: "world_time e = Some now \<and> \<not> m_bReinforcementActive c
        \<longrightarrow> m_bReinforcementActive (fst (UpdateReinforcementState dbg c e True))
            \<and> m_tCombatStartTime (fst (UpdateReinforcementState dbg c e True)) = Some now"
    using step_engagement_start by blast
  from p1 p2 p3 p4 show ?thesis by blast
qed

theorem active_implies_start_time_witness:
  "m_bReinforcementActive (exec DEBUG_MODE (new_component 1 ''group'' (Some 1) (Some 1))
       [(sample_env 0 7, True)])
   \<and> m_tCombatStartTime (exec DEBUG_MODE (new_component 1 ''group'' (Some 1) (Some 1))
       [(sample_env 0 7, True)]) \<noteq> None
   \<and> m_bReinforcementActive (exec DEBUG_MODE sample_component
       [(sample_env 0 7, True), (sample_env 301000 7, True)])
   \<and> \<not> m_bReinforcementActive (fst (UpdateReinforcementState DEBUG_MODE
         (exec DEBUG_MODE sample_component [(sample_env 0 7, True), (sample_env 301000 7, True)])
         (sample_env 330000 8) False))
   \<and> m_tCombatStartTime (fst (UpdateReinforcementState DEBUG_MODE
         (exec DEBUG_MODE sample_component [(sample_env 0 7, True), (sample_env 301000 7, True)])
         (sample_env 330000 8) False)) = Some 0
   \<and> m_iReinforcementWave (fst (UpdateReinforcementState DEBUG_MODE
         (exec DEBUG_MODE sample_component [(sample_env 0 7, True), (sample_env 301000 7, True)])
         (sample_env 330000 8) False)) = 0
   \<and> world_time (sample_env 360000 8) = Some 360000
   \<and> \<not> m_bReinforcementActive (exec DEBUG_MODE sample_component
       [(sample_env 0 7, True), (sample_env 301000 7, True), (sample_env 330000 8, False)])
   \<and> m_tCombatStartTime (exec DEBUG_MODE sample_component
       [(sample_env 0 7, True), (sample_env 301000 7, True), (sample_env 330000 8, False)]) = Some 0
   \<and> m_tCombatStartTime (fst (UpdateReinforcementState DEBUG_MODE
         (exec DEBUG_MODE sample_component
            [(sample_env 0 7, True), (sample_env 301000 7, True), (sample_env 330000 8, False)])
         (sample_env 360000 8) True)) = Some 360000"
proof -
  let ?c1 = "exec DEBUG_MODE sample_component [(sample_env 0 7, True), (sample_env 301000 7, True)]"
  let ?c2 = "exec DEBUG_MODE sample_component
       [(sample_env 0 7, True), (sample_env 301000 7, True), (sample_env 330000 8, False)]"
  have a: "m_bReinforcementActive (exec DEBUG_MODE (new_component 1 ''group'' (Some 1) (Some 1))
       [(sample_env 0 7, True)])"
    by (simp add: eval_defs)
  have b1: "m_bReinforcementActive ?c1" "m_tCombatStartTime ?c1 = Some 0"
    by (subst run1, simp)+
  have b2: "\<not> m_bReinforcementActive (fst (UpdateReinforcementState DEBUG_MODE ?c1 (sample_env 330000 8) False))"
    by (subst run1, simp add: eval_defs)
  have c1: "world_time (sample_env 360000 8) = Some 360000" by (simp add: sample_env_def)
  have c2: "\<not> m_bReinforcementActive ?c2" "m_tCombatStartTime ?c2 = Some 0"
    by (subst run_reset, simp)+
  note T0 = active_implies_start_time[of DEBUG_MODE 1 "''group''" "Some 1" "Some 1" "[(sample_env 0 7, True)]"]
  note T1 = active_implies_start_time[of DEBUG_MODE _ _ _ _ _ ?c1 "sample_env 330000 8" False]
  note T2 = active_implies_start_time[of DEBUG_MODE _ _ _ _ _ ?c2 "sample_env 360000 8" _ 360000]
  have r0: "m_tCombatStartTime (exec DEBUG_MODE (new_component 1 ''group'' (Some 1) (Some 1))
       [(sample_env 0 7, True)]) \<noteq> None"
    using T0 a by blast
  have r1: "m_tCombatStartTime (fst (UpdateReinforcementState DEBUG_MODE ?c1 (sample_env 330000 8) False))
              = m_tCombatStartTime ?c1"
    "m_iReinforcementWave (fst (UpdateReinforcementState DEBUG_MODE ?c1 (sample_env 330000 8) False)) = 0"
    using T1 b1(1) b2 by blast+
  have r2: "m_tCombatStartTime (fst (UpdateReinforcementState DEBUG_MODE ?c2 (sample_env 360000 8) True))
              = Some 360000"
    using T2 c1 c2(1) by blast
  from a r0 b1 b2 r1 c1 c2 r2 show ?thesis by (simp del: exec.simps)
qed

text \<open>
  Claim C3, as stated, fails. Wave 4 is configured with a threshold of 1200 s. On a tick of
  the engaged state at 1300 s of combat, with no wave fired so far and no cooldown running,
  wave 4 is applicable (its number exceeds the current wave 0 and its threshold is at most
  the elapsed time), yet wave 3 fires, and the next tick 30 s later fires nothing.
\<close>

theorem configured_wave_four_is_skipped_counterexample:
  "4 \<in> set configured_waves
   \<and> GetWaveThreshold DEBUG_MODE 4 = 1200
   \<and> m_bReinforcementActive (exec DEBUG_MODE sample_component [(sample_env 0 7, True)])
   \<and> m_iReinforcementWave (exec DEBUG_MODE sample_component [(sample_env 0 7, True)]) = 0
   \<and> \<not> in_cooldown (exec DEBUG_MODE sample_component [(sample_env 0 7, True)]) 1300000
   \<and> applicable DEBUG_MODE (exec DEBUG_MODE sample_component [(sample_env 0 7, True)]) 1300000 4
   \<and> fired (snd (UpdateReinforcementState DEBUG_MODE
         (exec DEBUG_MODE sample_component [(sample_env 0 7, True)]) (sample_env 1300000 7) True)) = [3]
   \<and> fired (exec_fx DEBUG_MODE sample_component
         [(sample_env 0 7, True), (sample_env 1300000 7, True), (sample_env 1330000 9, True)]) = [3]"
  by (simp add: eval_defs configured_waves_def applicable_def in_cooldown_def numeral_2_eq_2)

text \<open>
  Claim C3, amended. The state update tests the configured waves other than wave 4, that is
  waves 3, 2 and 1; wave 4 fires at no tick of any execution. On a tick in the engaged state
  with combat still detected and the cooldown elapsed, a wave fires exactly if it is the
  highest of the tested waves that are applicable (number above the current wave, threshold
  at most the elapsed combat time); when wave 4 is not applicable this is the highest
  applicable configured wave. No tick fires more than one wave. While the engagement lasts,
  every wave that fires has a number above the current wave, so a wave that was skipped
  never fires later. With the shipped thresholds (300 s for wave 1, 600 s for wave 2), 625 s
  of combat and no wave so far, wave 2 fires, and wave 1 fires at no later tick of that
  engagement.
\<close>

theorem highest_tested_wave_fires:
  "(m_bReinforcementActive c \<and> a \<and> world_time e = Some now \<and> \<not> in_cooldown c now \<longrightarrow>
      (\<forall>w. w \<in> set (fired (snd (UpdateReinforcementState dbg c e a))) \<longleftrightarrow>
            w \<in> set evaluated_waves \<and> applicable dbg c now w \<and>
            (\<forall>v \<in> set evaluated_waves. applicable dbg c now v \<longrightarrow> v \<le> w)))
   \<and> set evaluated_waves = set configured_waves - {4}
   \<and> 4 \<notin> set (fired (exec_fx dbg c ts))
   \<and> (m_bReinforcementActive c \<and> a \<and> world_time e = Some now \<and> \<not> in_cooldown c now \<and>
       \<not> applicable dbg c now 4 \<longrightarrow>
      (\<forall>w. w \<in> set (fired (snd (UpdateReinforcementState dbg c e a))) \<longleftrightarrow>
            w \<in> set configured_waves \<and> applicable dbg c now w \<and>
            (\<forall>v \<in> set configured_waves. applicable dbg c now v \<longrightarrow> v \<le> w)))
   \<and> length (fired (snd (UpdateReinforcementState dbg c e a))) \<le> 1
   \<and> (m_bReinforcementActive c \<and> (\<forall>t \<in> set ts. snd t \<or> world_time (fst t) = None) \<longrightarrow>
        (\<forall>w \<in> set (fired (exec_fx dbg c ts)). m_iReinforcementWave c < w))
   \<and> GetWaveThreshold DEBUG_MODE 1 = 300 \<and> GetWaveThreshold DEBUG_MODE 2 = 600
   \<and> m_iReinforcementWave (exec DEBUG_MODE sample_component [(sample_env 0 7, True)]) = 0
   \<and> fired (snd (UpdateReinforcementState DEBUG_MODE
         (exec DEBUG_MODE sample_component [(sample_env 0 7, True)]) (sample_env 625000 7) True)) = [2]
   \<and> ((\<forall>t \<in> set ts. snd t \<or> world_time (fst t) = None) \<longrightarrow>
        1 \<notin> set (fired (exec_fx DEBUG_MODE
          (exec DEBUG_MODE sample_component [(sample_env 0 7, True), (sample_env 625000 7, True)]) ts)))"
proof -
  have r: "m_bReinforcementActive
      (exec DEBUG_MODE sample_component [(sample_env 0 7, True), (sample_env 625000 7, True)])"
    "m_iReinforcementWave
      (exec DEBUG_MODE sample_component [(sample_env 0 7, True), (sample_env 625000 7, True)]) = 2"
    by (subst run625, simp)+
  have ex: "2 < w" if "\<forall>t \<in> set ts. snd t \<or> world_time (fst t) = None"
    "w \<in> set (fired (exec_fx DEBUG_MODE
          (exec DEBUG_MODE sample_component [(sample_env 0 7, True), (sample_env 625000 7, True)]) ts))" for w
    using engagement_fired_above[OF r(1) that] r(2) by simp
  have c: "GetWaveThreshold DEBUG_MODE 1 = 300" "GetWaveThreshold DEBUG_MODE 2 = 600"
    "m_iReinforcementWave (exec DEBUG_MODE sample_component [(sample_env 0 7, True)]) = 0"
    "fired (snd (UpdateReinforcementState DEBUG_MODE
         (exec DEBUG_MODE sample_component [(sample_env 0 7, True)]) (sample_env 625000 7) True)) = [2]"
    by (simp_all add: eval_defs)
  have p1: "m_bReinforcementActive c \<and> a \<and> world_time e = Some now \<and> \<not> in_cooldown c now \<longrightarrow>
      (\<forall>w. w \<in> set (fired (snd (UpdateReinforcementState dbg c e a))) \<longleftrightarrow>
            w \<in> set evaluated_waves \<and> applicable dbg c now w \<and>
            (\<forall>v \<in> set evaluated_waves. applicable dbg c now v \<longrightarrow> v \<le> w))"
    using engaged_tick_fires_highest by blast
  have p2: "length (fired (snd (UpdateReinforcementState dbg c e a))) \<le> 1"
    by (rule step_fired_short)
  have p3: "m_bReinforcementActive c \<and> (\<forall>t \<in> set ts. snd t \<or> world_time (fst t) = None) \<longrightarrow>
        (\<forall>w \<in> set (fired (exec_fx dbg c ts)). m_iReinforcementWave c < w)"
    using engagement_fired_above by blast
  have p4: "(\<forall>t \<in> set ts. snd t \<or> world_time (fst t) = None) \<longrightarrow>
        1 \<notin> set (fired (exec_fx DEBUG_MODE
          (exec DEBUG_MODE sample_component [(sample_env 0 7, True), (sample_env 625000 7, True)]) ts))"
    using ex by force
  have q1: "set evaluated_waves = set configured_waves - {4}"
    by (auto simp: evaluated_waves_def configured_waves_def)
  have q2: "4 \<notin> set (fired (exec_fx dbg c ts))"
    using exec_fired_evaluated[of 4 dbg c ts] by (auto simp: evaluated_waves_def)
  have q3: "m_bReinforcementActive c \<and> a \<and> world_time e = Some now \<and> \<not> in_cooldown c now \<and>
       \<not> applicable dbg c now 4 \<longrightarrow>
      (\<forall>w. w \<in> set (fired (snd (UpdateReinforcementState dbg c e a))) \<longleftrightarrow>
            w \<in> set configured_waves \<and> applicable dbg c now w \<and>
            (\<forall>v \<in> set configured_waves. applicable dbg c now v \<longrightarrow> v \<le> w))"
  proof (intro impI allI)
    fix w
    assume h: "m_bReinforcementActive c \<and> a \<and> world_time e = Some now \<and> \<not> in_cooldown c now \<and>
       \<not> applicable dbg c now 4"
    then have n4: "\<not> applicable dbg c now 4" by simp
    have s: "v \<in> set configured_waves \<and> applicable dbg c now v \<longleftrightarrow>
             v \<in> set evaluated_waves \<and> applicable dbg c now v" for v
      using n4 q1 by auto
    from h p1 have "w \<in> set (fired (snd (UpdateReinforcementState dbg c e a))) \<longleftrightarrow>
            w \<in> set evaluated_waves \<and> applicable dbg c now w \<and>
            (\<forall>v \<in> set evaluated_waves. applicable dbg c now v \<longrightarrow> v \<le> w)"
      by blast
    also have "\<dots> \<longleftrightarrow> w \<in> set configured_waves \<and> applicable dbg c now w \<and>
            (\<forall>v \<in> set configured_waves. applicable dbg c now v \<longrightarrow> v \<le> w)"
      using s by blast
    finally show "w \<in> set (fired (snd (UpdateReinforcementState dbg c e a))) \<longleftrightarrow>
            w \<in> set configured_waves \<and> applicable dbg c now w \<and>
            (\<forall>v \<in> set configured_waves. applicable dbg c now v \<longrightarrow> v \<le> w)" .
  qed
  from p1 q1 q2 q3 p2 p3 c p4 show ?thesis by blast
qed

theorem highest_tested_wave_fires_witness:
  "m_bReinforcementActive (exec DEBUG_MODE sample_component [(sample_env 0 7, True)])
   \<and> world_time (sample_env 625000 7) = Some 625000
   \<and> \<not> in_cooldown (exec DEBUG_MODE sample_component [(sample_env 0 7, True)]) 625000
   \<and> snd (sample_env 655000 8, True)
   \<and> (\<forall>w. w \<in> set (fired (snd (UpdateReinforcementState DEBUG_MODE
              (exec DEBUG_MODE sample_component [(sample_env 0 7, True)]) (sample_env 625000 7) True)))
          \<longleftrightarrow> w \<in> set evaluated_waves
              \<and> applicable DEBUG_MODE (exec DEBUG_MODE sample_component [(sample_env 0 7, True)]) 625000 w
              \<and> (\<forall>v \<in> set evaluated_waves.
                    applicable DEBUG_MODE (exec DEBUG_MODE sample_component [(sample_env 0 7, True)]) 625000 v
                    \<longrightarrow> v \<le> w))
   \<and> \<not> applicable DEBUG_MODE (exec DEBUG_MODE sample_component [(sample_env 0 7, True)]) 625000 4
   \<and> (\<forall>w. w \<in> set (fired (snd (UpdateReinforcementState DEBUG_MODE
              (exec DEBUG_MODE sample_component [(sample_env 0 7, True)]) (sample_env 625000 7) True)))
          \<longleftrightarrow> w \<in> set configured_waves
              \<and> applicable DEBUG_MODE (exec DEBUG_MODE sample_component [(sample_env 0 7, True)]) 625000 w
              \<and> (\<forall>v \<in> set configured_waves.
                    applicable DEBUG_MODE (exec DEBUG_MODE sample_component [(sample_env 0 7, True)]) 625000 v
                    \<longrightarrow> v \<le> w))
   \<and> 1 \<notin> set (fired (exec_fx DEBUG_MODE
          (exec DEBUG_MODE sample_component [(sample_env 0 7, True), (sample_env 625000 7, True)])
          [(sample_env 655000 8, True)]))"
proof -
  have h6: "\<not> applicable DEBUG_MODE (exec DEBUG_MODE sample_component [(sample_env 0 7, True)]) 625000 4"
    by (simp add: applicable_def eval_defs)
  have h1: "m_bReinforcementActive (exec DEBUG_MODE sample_component [(sample_env 0 7, True)])"
    by (simp add: eval_defs)
  have h2: "world_time (sample_env 625000 7) = Some 625000"
    by (simp add: sample_env_def)
  have h3: "\<not> in_cooldown (exec DEBUG_MODE sample_component [(sample_env 0 7, True)]) 625000"
    by (simp add: in_cooldown_def eval_defs)
  have h4: "\<forall>t \<in> set [(sample_env 655000 8, True)]. snd t \<or> world_time (fst t) = None"
    by simp
  have h5: "snd (sample_env 655000 8, True)" by simp
  from h1 h2 h3 h4 h5 h6
    highest_tested_wave_fires[of "exec DEBUG_MODE sample_component [(sample_env 0 7, True)]"
      True "sample_env 625000 7" 625000 DEBUG_MODE "[(sample_env 655000 8, True)]"]
  show ?thesis by blast
qed

text \<open>
  Claim C8, as stated, fails. Base 1 is held by faction 3 while the defending faction of the
  component is faction 1, so the base is enemy-held; a player's character of faction 3 is
  connected and no base of the enemy faction 2 is within 2000 units. With an inactivity timer
  started 600 s earlier, the guard returns false and \<open>UpdateTarget\<close> passes false to
  \<open>SetIsNearTarget\<close>.
\<close>

theorem enemy_held_base_torn_down_counterexample:
  "m_nearBase (sample_component\<lparr>m_tInactiveSince := Some 0\<rparr>) = Some 1
   \<and> m_Faction (sample_component\<lparr>m_tInactiveSince := Some 0\<rparr>) = Some 1
   \<and> base_faction (third_faction_env 600000 [3]) 1 = Some 3
   \<and> \<not> fst (ShouldKeepDefendersActive (sample_component\<lparr>m_tInactiveSince := Some 0\<rparr>)
              (third_faction_env 600000 [3]))
   \<and> fst (UpdateTarget (sample_component\<lparr>m_tInactiveSince := Some 0\<rparr>)
           (third_faction_env 600000 [3])) = Some False"
  by (simp add: third_faction_env_def guard_eval UpdateTarget_def PrepareBase_def Let_def)

text \<open>
  Claim C8, amended. For a resolved base that is not held by the faction of any connected
  player's character (its faction is unresolved, there is no player manager, or no player's
  character has its faction), the guard returns true and leaves the component as it is,
  whatever the inactivity timer, the clock and the positions of enemy bases are, and
  \<open>UpdateTarget\<close> passes true to \<open>SetIsNearTarget\<close> and keeps the timer. The defending
  faction is not compared with the faction of the base: a base held by the faction of a
  connected player's character that is not on the frontline is given up once the timer has
  run for 600 s.
\<close>

theorem base_of_no_players_faction_kept_active:
  "(m_nearBase c = Some b \<and> \<not> player_faction_holds e b \<longrightarrow>
      ShouldKeepDefendersActive c e = (True, c))
   \<and> (framework_baseReady e \<and> framework_nearBase e = Some b \<and> \<not> player_faction_holds e b \<longrightarrow>
        fst (UpdateTarget c e) = Some True \<and>
        m_tInactiveSince (fst (snd (UpdateTarget c e))) = m_tInactiveSince c)
   \<and> (m_nearBase c = Some b \<and> player_faction_holds e b \<and> \<not> IsBaseOnFrontline c e b \<and>
       world_time e = Some now \<and> m_tInactiveSince c = Some since \<and>
       600 \<le> DiffMilliseconds now since / 1000 \<longrightarrow>
        \<not> fst (ShouldKeepDefendersActive c e))"
proof -
  have p1: "m_nearBase c = Some b \<and> \<not> player_faction_holds e b \<longrightarrow>
      ShouldKeepDefendersActive c e = (True, c)"
    using not_friendly_kept[unfolded IsBaseFriendly_iff] by blast
  have p2: "framework_baseReady e \<and> framework_nearBase e = Some b \<and> \<not> player_faction_holds e b \<longrightarrow>
        fst (UpdateTarget c e) = Some True \<and>
        m_tInactiveSince (fst (snd (UpdateTarget c e))) = m_tInactiveSince c"
    using UpdateTarget_not_friendly[unfolded IsBaseFriendly_iff] by blast
  have p3: "m_nearBase c = Some b \<and> player_faction_holds e b \<and> \<not> IsBaseOnFrontline c e b \<and>
       world_time e = Some now \<and> m_tInactiveSince c = Some since \<and>
       600 \<le> DiffMilliseconds now since / 1000 \<longrightarrow>
        \<not> fst (ShouldKeepDefendersActive c e)"
    using friendly_rear_expired[unfolded IsBaseFriendly_iff] by blast
  from p1 p2 p3 show ?thesis by blast
qed

theorem base_of_no_players_faction_kept_active_witness:
  "m_nearBase (sample_component\<lparr>m_tInactiveSince := Some 0\<rparr>) = Some 1
   \<and> \<not> player_faction_holds (sample_env 9000000 7) 1
   \<and> framework_baseReady (sample_env 9000000 7)
   \<and> framework_nearBase (sample_env 9000000 7) = Some 1
   \<and> ShouldKeepDefendersActive (sample_component\<lparr>m_tInactiveSince := Some 0\<rparr>) (sample_env 9000000 7)
       = (True, sample_component\<lparr>m_tInactiveSince := Some 0\<rparr>)
   \<and> fst (UpdateTarget (sample_component\<lparr>m_tInactiveSince := Some 0\<rparr>) (sample_env 9000000 7))
       = Some True
   \<and> player_faction_holds (third_faction_env 600000 [3]) 1
   \<and> \<not> IsBaseOnFrontline (sample_component\<lparr>m_tInactiveSince := Some 0\<rparr>)
          (third_faction_env 600000 [3]) 1
   \<and> world_time (third_faction_env 600000 [3]) = Some 600000
   \<and> \<not> fst (ShouldKeepDefendersActive (sample_component\<lparr>m_tInactiveSince := Some 0\<rparr>)
              (third_faction_env 600000 [3]))"
proof -
  let ?c = "sample_component\<lparr>m_tInactiveSince := Some 0\<rparr>"
  have h1: "m_nearBase ?c = Some 1" "m_tInactiveSince ?c = Some 0"
    by (simp_all add: sample_component_def new_component_def)
  have h2: "\<not> player_faction_holds (sample_env 9000000 7) 1"
    by (simp add: player_faction_holds_def sample_env_def)
  have h3: "framework_baseReady (sample_env 9000000 7)"
    "framework_nearBase (sample_env 9000000 7) = Some 1"
    by (simp_all add: sample_env_def)
  have h4: "player_faction_holds (third_faction_env 600000 [3]) 1"
    by (simp add: player_faction_holds_def third_faction_env_def guard_env_def sample_env_def)
  have h5: "\<not> IsBaseOnFrontline ?c (third_faction_env 600000 [3]) 1"
    by (simp add: third_faction_env_def guard_eval)
  have h6: "world_time (third_faction_env 600000 [3]) = Some 600000"
    by (simp add: third_faction_env_def guard_env_def sample_env_def)
  have h7: "600 \<le> DiffMilliseconds 600000 0 / 1000"
    by (simp add: DiffMilliseconds_def)
  note T1 = base_of_no_players_faction_kept_active[of ?c 1 "sample_env 9000000 7"]
  note T2 = base_of_no_players_faction_kept_active[of ?c 1 "third_faction_env 600000 [3]" 600000 0]
  have r1: "ShouldKeepDefendersActive ?c (sample_env 9000000 7) = (True, ?c)"
    using T1 h1(1) h2 by blast
  have r2: "fst (UpdateTarget ?c (sample_env 9000000 7)) = Some True"
    using T1 h2 h3 by blast
  have r3: "\<not> fst (ShouldKeepDefendersActive ?c (third_faction_env 600000 [3]))"
    using T2 h1 h4 h5 h6 h7 by blast
  from h1(1) h2 h3 r1 r2 h4 h5 h6 r3 show ?thesis by blast
qed

text \<open>
  Claim C9, as stated, fails. Base 1 is held by the defending faction 1 throughout. At 0 s a
  player of faction 1 is connected and no enemy base is near: the timer starts. At 300 s an
  enemy base lies 1000 units away, so the base is on the frontline, but nobody is connected:
  the guard returns true and keeps the timer. At 600 s the situation of 0 s is back and the
  guard returns false, 300 s after the frontline tick.
\<close>

theorem frontline_tick_without_player_counterexample:
  "base_faction ((guard_env 300000 [2])\<lparr>playerManager := Some []\<rparr>) 1 = m_Faction sample_component
   \<and> IsBaseOnFrontline sample_component ((guard_env 300000 [2])\<lparr>playerManager := Some []\<rparr>) 1
   \<and> ShouldKeepDefendersActive (guard_exec sample_component [guard_env 0 [3]])
        ((guard_env 300000 [2])\<lparr>playerManager := Some []\<rparr>)
       = (True, sample_component\<lparr>m_tInactiveSince := Some 0\<rparr>)
   \<and> world_time (guard_env 600000 [3]) = Some 600000
   \<and> \<not> fst (ShouldKeepDefendersActive
              (guard_exec sample_component
                 [guard_env 0 [3], (guard_env 300000 [2])\<lparr>playerManager := Some []\<rparr>])
              (guard_env 600000 [3]))"
  by (simp add: guard_eval)

text \<open>
  Claim C9, amended. The guard classifies a resolved base only on ticks on which the base is
  held by the faction of some connected player's character. When the guard, run over the
  environments \<open>es\<close> from a component without inactivity timer, returns false on a further
  environment \<open>e\<close>, then some earlier such tick classified the base as not frontline at a
  clock reading at least 600 seconds before that of \<open>e\<close>, \<open>e\<close> is such a tick too, and no
  such tick from that one on classified it as frontline. Such a tick that classifies the
  base as frontline returns true and clears the timer. A tick on which no connected
  player's character has the faction of the base returns true and leaves the timer as it
  is, wherever the enemy bases are. The classification is frontline when the game mode, the
  base manager, the faction manager, the own campaign faction or the enemy faction is not
  resolved; otherwise it is frontline exactly if some base of the enemy faction is less than
  2000 units away.
\<close>

theorem guard_false_only_after_grace_period:
  "(m_nearBase c0 = Some b \<and> m_tInactiveSince c0 = None \<and>
    \<not> fst (ShouldKeepDefendersActive (guard_exec c0 es) e) \<longrightarrow>
      (\<exists>pre e0 mid since now. es = pre @ e0 # mid \<and> world_time e0 = Some since \<and>
           world_time e = Some now \<and> 600 \<le> DiffMilliseconds now since / 1000 \<and>
           since + 600000 \<le> now \<and> player_faction_holds e0 b \<and> player_faction_holds e b \<and>
           (\<forall>x \<in> set (e0 # mid @ [e]). \<not> (player_faction_holds x b \<and> IsBaseOnFrontline c0 x b))))
   \<and> (m_nearBase c = Some b \<and> player_faction_holds e b \<and> IsBaseOnFrontline c e b \<longrightarrow>
        ShouldKeepDefendersActive c e = (True, c\<lparr>m_tInactiveSince := None\<rparr>))
   \<and> (gameMode e = None \<or> gameMode e = Some None \<or> factionManager e = None \<or> m_Faction c = None \<or>
       (\<exists>f. m_Faction c = Some f \<and> \<not> campaign_faction e f) \<or>
       (\<exists>f getEnemyFaction. m_Faction c = Some f \<and> factionManager e = Some getEnemyFaction \<and>
            getEnemyFaction f = None)
       \<longrightarrow> IsBaseOnFrontline c e b)
   \<and> (gameMode e = Some (Some getBases) \<and> factionManager e = Some getEnemyFaction \<and>
       m_Faction c = Some f \<and> campaign_faction e f \<and> getEnemyFaction f = Some enemyFaction \<longrightarrow>
         (IsBaseOnFrontline c e b \<longleftrightarrow>
            (\<exists>x \<in> set (getBases enemyFaction).
                Distance (base_origin e b) (base_origin e x) < FRONTLINE_RANGE)))
   \<and> (m_nearBase c = Some b \<and> \<not> player_faction_holds e b \<longrightarrow>
        ShouldKeepDefendersActive c e = (True, c))
   \<and> FRONTLINE_RANGE = 2000 \<and> INACTIVE_GRACE_PERIOD = 600"
proof -
  have p0: "m_nearBase c = Some b \<and> \<not> player_faction_holds e b \<longrightarrow>
        ShouldKeepDefendersActive c e = (True, c)"
    using not_friendly_kept[unfolded IsBaseFriendly_iff] by blast
  have p1: "m_nearBase c0 = Some b \<and> m_tInactiveSince c0 = None \<and>
    \<not> fst (ShouldKeepDefendersActive (guard_exec c0 es) e) \<longrightarrow>
      (\<exists>pre e0 mid since now. es = pre @ e0 # mid \<and> world_time e0 = Some since \<and>
           world_time e = Some now \<and> 600 \<le> DiffMilliseconds now since / 1000 \<and>
           since + 600000 \<le> now \<and> player_faction_holds e0 b \<and> player_faction_holds e b \<and>
           (\<forall>x \<in> set (e0 # mid @ [e]). \<not> (player_faction_holds x b \<and> IsBaseOnFrontline c0 x b)))"
    using guard_false_after_grace[unfolded IsBaseFriendly_iff] by blast
  have p2: "m_nearBase c = Some b \<and> player_faction_holds e b \<and> IsBaseOnFrontline c e b \<longrightarrow>
        ShouldKeepDefendersActive c e = (True, c\<lparr>m_tInactiveSince := None\<rparr>)"
    using frontline_clears_timer[unfolded IsBaseFriendly_iff] by blast
  have p3: "gameMode e = None \<or> gameMode e = Some None \<or> factionManager e = None \<or> m_Faction c = None \<or>
       (\<exists>f. m_Faction c = Some f \<and> \<not> campaign_faction e f) \<or>
       (\<exists>f getEnemyFaction. m_Faction c = Some f \<and> factionManager e = Some getEnemyFaction \<and>
            getEnemyFaction f = None)
       \<longrightarrow> IsBaseOnFrontline c e b"
    using frontline_fail_open[of e c b] by blast
  have p4: "gameMode e = Some (Some getBases) \<and> factionManager e = Some getEnemyFaction \<and>
       m_Faction c = Some f \<and> campaign_faction e f \<and> getEnemyFaction f = Some enemyFaction \<longrightarrow>
         (IsBaseOnFrontline c e b \<longleftrightarrow>
            (\<exists>x \<in> set (getBases enemyFaction).
                Distance (base_origin e b) (base_origin e x) < FRONTLINE_RANGE))"
    using frontline_resolved[of e getBases getEnemyFaction c f enemyFaction b] by blast
  have p5: "FRONTLINE_RANGE = 2000" "INACTIVE_GRACE_PERIOD = 600"
    by (simp_all add: FRONTLINE_RANGE_def INACTIVE_GRACE_PERIOD_def)
  from p0 p1 p2 p3 p4 p5 show ?thesis by blast
qed

theorem guard_false_only_after_grace_period_witness:
  "m_nearBase sample_component = Some 1 \<and> m_tInactiveSince sample_component = None
   \<and> \<not> fst (ShouldKeepDefendersActive (guard_exec sample_component [guard_env 0 [3]])
              (guard_env 600000 [3]))
   \<and> (\<exists>pre e0 mid since now. [guard_env 0 [3]] = pre @ e0 # mid \<and> world_time e0 = Some since \<and>
           world_time (guard_env 600000 [3]) = Some now \<and> 600 \<le> DiffMilliseconds now since / 1000 \<and>
           since + 600000 \<le> now \<and> player_faction_holds e0 1 \<and> player_faction_holds (guard_env 600000 [3]) 1 \<and>
           (\<forall>x \<in> set (e0 # mid @ [guard_env 600000 [3]]).
               \<not> (player_faction_holds x 1 \<and> IsBaseOnFrontline sample_component x 1)))
   \<and> player_faction_holds (guard_env 700000 [2, 3]) 1
   \<and> IsBaseOnFrontline (sample_component\<lparr>m_tInactiveSince := Some 0\<rparr>) (guard_env 700000 [2, 3]) 1
   \<and> ShouldKeepDefendersActive (sample_component\<lparr>m_tInactiveSince := Some 0\<rparr>) (guard_env 700000 [2, 3])
       = (True, sample_component\<lparr>m_tInactiveSince := Some 0, m_tInactiveSince := None\<rparr>)
   \<and> gameMode (sample_env 0 7) = None
   \<and> IsBaseOnFrontline sample_component (sample_env 0 7) 1
   \<and> \<not> player_faction_holds (sample_env 0 7) 1
   \<and> ShouldKeepDefendersActive (sample_component\<lparr>m_tInactiveSince := Some 0\<rparr>) (sample_env 0 7)
       = (True, sample_component\<lparr>m_tInactiveSince := Some 0\<rparr>)"
proof -
  have h8: "\<not> player_faction_holds (sample_env 0 7) 1"
    by (simp add: player_faction_holds_def sample_env_def)
  note T4 = guard_false_only_after_grace_period[of _ 1 _ "sample_env 0 7"
      "sample_component\<lparr>m_tInactiveSince := Some 0\<rparr>"]
  have h1: "m_nearBase sample_component = Some 1" "m_tInactiveSince sample_component = None"
    by (simp_all add: sample_component_def new_component_def)
  have h2: "\<not> fst (ShouldKeepDefendersActive (guard_exec sample_component [guard_env 0 [3]])
              (guard_env 600000 [3]))"
    by (simp add: guard_eval)
  have h3: "m_nearBase (sample_component\<lparr>m_tInactiveSince := Some 0\<rparr>) = Some 1"
    by (simp add: sample_component_def new_component_def)
  have h4: "player_faction_holds (guard_env 700000 [2, 3]) 1"
    by (simp add: player_faction_holds_def guard_env_def sample_env_def)
  have h5: "gameMode (guard_env 700000 [2, 3]) = Some (Some (\<lambda>f. if f = 2 then [2, 3] else []))"
    "factionManager (guard_env 700000 [2, 3]) = Some (\<lambda>f. if f = 1 then Some 2 else Some 1)"
    "m_Faction (sample_component\<lparr>m_tInactiveSince := Some 0\<rparr>) = Some 1"
    "campaign_faction (guard_env 700000 [2, 3]) 1"
    "(\<lambda>f. if f = 1 then Some 2 else Some (1::nat)) (1::nat) = Some 2"
    by (simp_all add: guard_eval)
  have h6: "\<exists>x \<in> set ((\<lambda>f. if f = 2 then [2, 3] else []) (2::nat)).
      Distance (base_origin (guard_env 700000 [2, 3]) 1) (base_origin (guard_env 700000 [2, 3]) x)
        < FRONTLINE_RANGE"
    by (simp add: guard_eval)
  have h7: "gameMode (sample_env 0 7) = None" by (simp add: sample_env_def)
  note T1 = guard_false_only_after_grace_period[of sample_component 1 "[guard_env 0 [3]]"
      "guard_env 600000 [3]"]
  note T2 = guard_false_only_after_grace_period[of _ _ _ "guard_env 700000 [2, 3]"
      "sample_component\<lparr>m_tInactiveSince := Some 0\<rparr>" "\<lambda>f. if f = 2 then [2, 3] else []"
      "\<lambda>f. if f = 1 then Some 2 else Some 1" 1 2]
  note T3 = guard_false_only_after_grace_period[of _ _ _ "sample_env 0 7" sample_component]
  have f: "IsBaseOnFrontline (sample_component\<lparr>m_tInactiveSince := Some 0\<rparr>) (guard_env 700000 [2, 3]) 1"
    using T2[of _ 1 _] h5 h6 by blast
  have k: "ShouldKeepDefendersActive (sample_component\<lparr>m_tInactiveSince := Some 0\<rparr>) (guard_env 700000 [2, 3])
       = (True, sample_component\<lparr>m_tInactiveSince := Some 0, m_tInactiveSince := None\<rparr>)"
    using T2[of _ 1 _] h3 h4 f by blast
  have o: "IsBaseOnFrontline sample_component (sample_env 0 7) 1"
    using T3 h7 by blast
  have g: "\<exists>pre e0 mid since now. [guard_env 0 [3]] = pre @ e0 # mid \<and> world_time e0 = Some since \<and>
           world_time (guard_env 600000 [3]) = Some now \<and> 600 \<le> DiffMilliseconds now since / 1000 \<and>
           since + 600000 \<le> now \<and> player_faction_holds e0 1 \<and> player_faction_holds (guard_env 600000 [3]) 1 \<and>
           (\<forall>x \<in> set (e0 # mid @ [guard_env 600000 [3]]).
               \<not> (player_faction_holds x 1 \<and> IsBaseOnFrontline sample_component x 1))"
    using T1 h1 h2 by blast
  have n: "ShouldKeepDefendersActive (sample_component\<lparr>m_tInactiveSince := Some 0\<rparr>) (sample_env 0 7)
       = (True, sample_component\<lparr>m_tInactiveSince := Some 0\<rparr>)"
    using T4 h3 h8 by blast
  from h1 h2 g h4 f k h7 o h8 n show ?thesis by blast
qed

end
